theory Spec2Isabelle
  imports Main
begin

section \<open>The static file server of \<open>server.py\<close>\<close>

text \<open>
  \<open>server.py\<close> is forty lines on top of Python's \<open>http.server\<close>,
  \<open>socketserver\<close> and \<open>mimetypes\<close>: it registers two MIME types, subclasses
  \<open>SimpleHTTPRequestHandler\<close> with an \<open>end_headers\<close> that injects headers and a
  \<open>do_OPTIONS\<close>, and runs a \<open>TCPServer\<close> until it is interrupted.  What a client
  observes is decided by the inherited library methods calling back into the two
  overrides, so the embedding has two layers:
  \<^item> the methods of \<open>server.py\<close> (\<open>end_headers\<close>, \<open>do_OPTIONS\<close>, the two
    \<open>add_type\<close> calls, the main block), translated line by line;
  \<^item> the inherited methods they call and are called from, translated from
    \<open>http/server.py\<close>, \<open>mimetypes.py\<close>, \<open>posixpath.py\<close> and \<open>socketserver.py\<close>
    of CPython 3.11, each under the name it has there.
  The operating system (file system, clock) and the library functions that only format
  text are parameters, collected in the record \<open>env\<close>.

  Strings are byte strings (\<open>char list\<close>).  Logging to stderr is left out: no claim is
  about it.  The client is taken to read what is written to it, and a file's modification
  time to be a date that \<open>datetime\<close> can represent.  The class attribute \<open>protocol_version\<close> is \<open>HTTP/1.0\<close> and \<open>server.py\<close>
  does not change it, so the three library branches guarded by
  \<open>self.protocol_version >= "HTTP/1.1"\<close> (keep-alive and \<open>Expect: 100-continue\<close>) are
  dead: \<open>close_connection\<close> stays true and every connection carries one request.
\<close>

subsection \<open>String helpers (Python \<open>str\<close> methods)\<close>

definition startswith :: "string \<Rightarrow> string \<Rightarrow> bool" where
  "startswith s pre = (take (length pre) s = pre)"

definition endswith :: "string \<Rightarrow> string \<Rightarrow> bool" where
  "endswith s suf = (length suf \<le> length s \<and> drop (length s - length suf) s = suf)"

text \<open>\<open>s.split(sep)\<close> for a one-character separator: every field, empty ones too.\<close>

fun split_on :: "char \<Rightarrow> string \<Rightarrow> string list" where
  "split_on sep [] = [[]]"
| "split_on sep (c # cs) =
     (if c = sep then [] # split_on sep cs
      else (case split_on sep cs of
              [] \<Rightarrow> [[c]]
            | w # ws \<Rightarrow> (c # w) # ws))"

text \<open>\<open>s.split(sep, 1)[0]\<close>: the text before the first separator.\<close>

definition before_first :: "char \<Rightarrow> string \<Rightarrow> string" where
  "before_first sep s = takeWhile (\<lambda>c. c \<noteq> sep) s"

text \<open>\<open>s.lower()\<close> on the ASCII letters.\<close>

definition lower_char :: "char \<Rightarrow> char" where
  "lower_char c =
     (case map_of (zip ''ABCDEFGHIJKLMNOPQRSTUVWXYZ'' ''abcdefghijklmnopqrstuvwxyz'') c of
        Some d \<Rightarrow> d
      | None \<Rightarrow> c)"

definition lower :: "string \<Rightarrow> string" where
  "lower s = map lower_char s"

text \<open>
  \<open>str.isspace\<close> on the code points below 256, for \<open>rstrip()\<close>: tab to carriage
  return, the four separators \<open>0x1C\<close>--\<open>0x1F\<close>, space, \<open>0x85\<close> and \<open>0xA0\<close>.
\<close>

definition isspace :: "char \<Rightarrow> bool" where
  "isspace c = (let n = (of_char c :: nat) in
     (9 \<le> n \<and> n \<le> 13) \<or> (28 \<le> n \<and> n \<le> 32) \<or> n = 133 \<or> n = 160)"

definition rstrip :: "string \<Rightarrow> string" where
  "rstrip s = rev (dropWhile isspace (rev s))"

definition isdigit :: "char \<Rightarrow> bool" where
  "isdigit c = (c \<in> set ''0123456789'')"

definition digit_val :: "char \<Rightarrow> nat" where
  "digit_val c = (of_char c :: nat) - 48"

text \<open>\<open>int(s)\<close> on a string of decimal digits.\<close>

definition int_of_digits :: "string \<Rightarrow> nat" where
  "int_of_digits s = foldl (\<lambda>n c. 10 * n + digit_val c) 0 s"

text \<open>\<open>str(n)\<close> for a natural number.\<close>

fun str_nat :: "nat \<Rightarrow> string" where
  "str_nat n =
     (if n < 10 then [''0123456789'' ! n]
      else str_nat (n div 10) @ [''0123456789'' ! (n mod 10)])"

declare str_nat.simps [simp del]

subsection \<open>The handler object\<close>

text \<open>
  A line of the response head.  \<open>StatusLine v c m\<close> stands for the bytes
  \<open>"%s %d %s\r\n" % (v, c, m)\<close>, \<open>HeaderLine k v\<close> for \<open>"%s: %s\r\n" % (k, v)\<close>
  and \<open>BlankLine\<close> for \<open>"\r\n"\<close>.
\<close>

datatype hline = StatusLine string nat string | HeaderLine string string | BlankLine

text \<open>
  The attributes of \<open>self\<close> that the methods read and write.  \<open>path\<close> is an option:
  the attribute does not exist until \<open>parse_request\<close> has assigned it, and reading it
  before raises \<open>AttributeError\<close>.  \<open>command\<close> is \<open>None\<close> while Python's is.
  \<open>wfile_head\<close> and \<open>wfile_body\<close> are what has been written to the socket: the
  flushed header lines, then the body bytes.
\<close>

record handler =
  command :: "string option"
  path :: "string option"
  request_version :: string
  headers :: "(string \<times> string) list"
  headers_buffer :: "hline list"
  wfile_head :: "hline list"
  wfile_body :: string

datatype exn = AttributeError string | TypeError | ValueError | UnicodeEncodeError

definition protocol_version :: string where
  "protocol_version = ''HTTP/1.0''"

text \<open>
  \<open>self.responses[code][0]\<close>, the reason phrase of \<open>HTTPStatus\<close>, for the codes this
  server sends; \<open>None\<close> for a code that is not in the table.
\<close>

definition responses :: "nat \<Rightarrow> string option" where
  "responses code =
     map_of [(200::nat, ''OK''), (301, ''Moved Permanently''), (304, ''Not Modified''),
             (400, ''Bad Request''), (404, ''Not Found''), (414, ''Request-URI Too Long''),
             (431, ''Request Header Fields Too Large''), (501, ''Not Implemented''),
             (505, ''HTTP Version Not Supported'')] code"

subsection \<open>\<open>BaseHTTPRequestHandler\<close>: the header buffer\<close>

text \<open>
  \<open>send_response_only\<close>, \<open>send_header\<close> and the inherited \<open>end_headers\<close> all start
  with \<open>if self.request_version != 'HTTP/0.9'\<close>: a request without a version gets a
  response without a head.
\<close>

definition send_response_only :: "handler \<Rightarrow> nat \<Rightarrow> string option \<Rightarrow> handler" where
  "send_response_only s code message =
     (if request_version s \<noteq> ''HTTP/0.9'' then
        (let m = (case message of
                    Some m \<Rightarrow> m
                  | None \<Rightarrow> (case responses code of Some p \<Rightarrow> p | None \<Rightarrow> ''''))
         in s\<lparr>headers_buffer := headers_buffer s @ [StatusLine protocol_version code m]\<rparr>)
      else s)"

definition send_header :: "handler \<Rightarrow> string \<Rightarrow> string \<Rightarrow> handler" where
  "send_header s keyword v =
     (if request_version s \<noteq> ''HTTP/0.9'' then
        s\<lparr>headers_buffer := headers_buffer s @ [HeaderLine keyword v]\<rparr>
      else s)"

definition flush_headers :: "handler \<Rightarrow> handler" where
  "flush_headers s = s\<lparr>wfile_head := wfile_head s @ headers_buffer s, headers_buffer := []\<rparr>"

text \<open>\<open>BaseHTTPRequestHandler.end_headers\<close>, reached through \<open>super().end_headers()\<close>.\<close>

definition super_end_headers :: "handler \<Rightarrow> handler" where
  "super_end_headers s =
     (if request_version s \<noteq> ''HTTP/0.9'' then
        flush_headers (s\<lparr>headers_buffer := headers_buffer s @ [BlankLine]\<rparr>)
      else s)"

subsection \<open>\<open>CustomHTTPRequestHandler.end_headers\<close> (\<open>server.py\<close>, lines 11--19)\<close>

text \<open>
  Three CORS headers, then the forced content type when \<open>self.path\<close> ends in \<open>.js\<close>,
  then the inherited method.  Reading \<open>self.path\<close> raises when the attribute is not
  there yet; an exception is returned with the handler as it was when it was raised.
\<close>

definition end_headers :: "handler \<Rightarrow> (exn \<times> handler) + handler" where
  "end_headers s =
     (let s1 = send_header s ''Access-Control-Allow-Origin'' ''*'';
          s2 = send_header s1 ''Access-Control-Allow-Methods'' ''GET, POST, OPTIONS'';
          s3 = send_header s2 ''Access-Control-Allow-Headers'' ''Content-Type''
      in case path s3 of
           None \<Rightarrow> Inl (AttributeError ''path'', s3)
         | Some p \<Rightarrow>
             Inr (super_end_headers
                    (if endswith p ''.js''
                     then send_header s3 ''Content-Type'' ''application/javascript''
                     else s3)))"

subsection \<open>The environment\<close>

record fileobj =
  contents :: string
  mtime :: int

text \<open>
  What \<open>open(path, 'rb')\<close> does: it returns a file object, or raises \<open>OSError\<close>
  (no such file, no permission), or raises \<open>ValueError\<close> before it reaches the
  operating system: the name holds a NUL byte, or a character the file system encoding
  cannot encode (\<open>UnicodeEncodeError\<close>, a subclass).
\<close>

datatype open_result = Opened fileobj | RaisedOSError | RaisedValueError

text \<open>
  What the operating system and the text-formatting library functions return.
  \<^item> \<open>cwd_tail\<close>: \<open>os.getcwd()\<close> without its leading slash (the handler's
    \<open>self.directory\<close>; \<open>server.py\<close> has changed into its own directory before).
  \<^item> \<open>isdir\<close>, \<open>isfile\<close>, \<open>listdir\<close>: \<open>os.path.isdir\<close>, \<open>os.path.isfile\<close>
    (both false where \<open>os.stat\<close> raises \<open>OSError\<close> or \<open>ValueError\<close>) and
    \<open>os.listdir\<close> (\<open>None\<close> for \<open>OSError\<close>; it is only called on a name for which
    \<open>isdir\<close> holds).
  \<^item> \<open>open_rb\<close>: \<open>open(path, 'rb')\<close> with \<open>os.fstat\<close>: the bytes and the
    modification time in whole seconds, or the exception raised.
  \<^item> \<open>mime_types\<close>: the strict table of the global \<open>mimetypes\<close> database.
  \<^item> \<open>unquote_escapes\<close>: \<open>urllib.parse.unquote\<close> on a string that contains \<open>%\<close>.
  \<^item> \<open>urlsplit_path\<close>: \<open>urllib.parse.urlsplit(p).path\<close>, \<open>None\<close> when
    \<open>urlsplit\<close> raises \<open>ValueError\<close> (a target such as \<open>http://[x/\<close>);
    \<open>redirect_url\<close>: the \<open>Location\<close> that \<open>send_head\<close> builds with
    \<open>urlunsplit\<close>.
  \<^item> \<open>parsedate_utc\<close>: \<open>email.utils.parsedate_to_datetime\<close> as seconds since the
    epoch; \<open>None\<close> when it raises or the date carries a zone other than UTC.
  \<^item> \<open>version_string\<close>, \<open>date_now\<close>, \<open>http_date\<close>: the \<open>Server\<close> and \<open>Date\<close>
    values and \<open>date_time_string(timestamp)\<close>.
  \<^item> \<open>py_repr\<close>: \<open>'%r' % s\<close>; \<open>error_page\<close>: the encoded
    \<open>error_message_format\<close> for a code, a message and an optional explanation;
    \<open>listing_page\<close>: the encoded HTML that \<open>list_directory\<close> builds for
    \<open>self.path\<close>, the directory and its entries, \<open>None\<close> when
    \<open>encode(enc, 'surrogateescape')\<close> raises \<open>UnicodeEncodeError\<close> (the unquoted
    target holds a lone surrogate); \<open>fs_encoding\<close>: \<open>sys.getfilesystemencoding()\<close>.
\<close>

record env =
  cwd_tail :: string
  isdir :: "string \<Rightarrow> bool"
  isfile :: "string \<Rightarrow> bool"
  listdir :: "string \<Rightarrow> string list option"
  open_rb :: "string \<Rightarrow> open_result"
  mime_types :: "string \<Rightarrow> string option"
  unquote_escapes :: "string \<Rightarrow> string"
  urlsplit_path :: "string \<Rightarrow> string option"
  redirect_url :: "string \<Rightarrow> string"
  parsedate_utc :: "string \<Rightarrow> int option"
  version_string :: string
  date_now :: string
  http_date :: "int \<Rightarrow> string"
  py_repr :: "string \<Rightarrow> string"
  error_page :: "nat \<Rightarrow> string \<Rightarrow> string option \<Rightarrow> string"
  listing_page :: "string \<Rightarrow> string \<Rightarrow> string list \<Rightarrow> string option"
  fs_encoding :: string

definition directory :: "env \<Rightarrow> string" where
  "directory e = CHR ''/'' # cwd_tail e"

subsection \<open>\<open>BaseHTTPRequestHandler\<close>: \<open>send_response\<close> and \<open>send_error\<close>\<close>

definition send_response :: "env \<Rightarrow> handler \<Rightarrow> nat \<Rightarrow> string option \<Rightarrow> handler" where
  "send_response e s code message =
     (let s1 = send_response_only s code message;
          s2 = send_header s1 ''Server'' (version_string e)
      in send_header s2 ''Date'' (date_now e))"

definition error_content_type :: string where
  "error_content_type = ''text/html;charset=utf-8''"

text \<open>
  \<open>send_error\<close> finishes its head with \<open>self.end_headers()\<close>, which is the override
  of \<open>server.py\<close>; the body follows unless the request was a \<open>HEAD\<close>.
\<close>

definition send_error ::
  "env \<Rightarrow> handler \<Rightarrow> nat \<Rightarrow> string option \<Rightarrow> string option \<Rightarrow> (exn \<times> handler) + handler" where
  "send_error e s code message explain =
     (let shortmsg = (case responses code of Some p \<Rightarrow> p | None \<Rightarrow> ''???'');
          msg = (case message of Some m \<Rightarrow> m | None \<Rightarrow> shortmsg);
          s1 = send_response e s code (Some msg);
          s2 = send_header s1 ''Connection'' ''close'';
          has_body = (200 \<le> code \<and> code \<notin> {204, 205, 304});
          body = (if has_body then error_page e code msg explain else []);
          s3 = (if has_body
                then send_header (send_header s2 ''Content-Type'' error_content_type)
                       ''Content-Length'' (str_nat (length body))
                else s2)
      in case end_headers s3 of
           Inl x \<Rightarrow> Inl x
         | Inr s4 \<Rightarrow>
             Inr (if command s4 \<noteq> Some ''HEAD'' \<and> body \<noteq> []
                  then s4\<lparr>wfile_body := wfile_body s4 @ body\<rparr>
                  else s4))"

subsection \<open>\<open>posixpath\<close> and \<open>SimpleHTTPRequestHandler.translate_path\<close>\<close>

definition join_slash :: "string list \<Rightarrow> string" where
  "join_slash ws = (case ws of [] \<Rightarrow> [] | w # r \<Rightarrow> foldl (\<lambda>a b. a @ CHR ''/'' # b) w r)"

text \<open>The loop of \<open>posixpath.normpath\<close> over the components, \<open>acc\<close> being \<open>new_comps\<close>.\<close>

fun norm_comps :: "bool \<Rightarrow> string list \<Rightarrow> string list \<Rightarrow> string list" where
  "norm_comps initial_slashes acc [] = acc"
| "norm_comps initial_slashes acc (w # ws) =
     (if w = [] \<or> w = ''.'' then norm_comps initial_slashes acc ws
      else if w \<noteq> ''..'' \<or> (\<not> initial_slashes \<and> acc = []) \<or> (acc \<noteq> [] \<and> last acc = ''..'')
        then norm_comps initial_slashes (acc @ [w]) ws
      else if acc \<noteq> [] then norm_comps initial_slashes (butlast acc) ws
      else norm_comps initial_slashes acc ws)"

definition normpath :: "string \<Rightarrow> string" where
  "normpath p =
     (if p = [] then ''.''
      else
        (let initial_slashes = (if startswith p ''/'' then
                                  (if startswith p ''//'' \<and> \<not> startswith p ''///'' then 2 else 1)
                                else (0::nat));
             joined = join_slash (norm_comps (0 < initial_slashes) [] (split_on CHR ''/'' p));
             q = replicate initial_slashes CHR ''/'' @ joined
         in if q = [] then ''.'' else q))"

definition path_join :: "string \<Rightarrow> string \<Rightarrow> string" where
  "path_join a b =
     (if startswith b ''/'' then b
      else if a = [] \<or> endswith a ''/'' then a @ b
      else a @ CHR ''/'' # b)"

definition unquote :: "env \<Rightarrow> string \<Rightarrow> string" where
  "unquote e s = (if CHR ''%'' \<in> set s then unquote_escapes e s else s)"

text \<open>
  The query and the fragment are cut off, the rest is unquoted, normalised and joined
  under the serving directory word by word; a word is skipped when
  \<open>os.path.dirname(word)\<close> is not empty (it holds a slash) or it is \<open>.\<close> or \<open>..\<close>.
\<close>

definition translate_path :: "env \<Rightarrow> string \<Rightarrow> string" where
  "translate_path e p0 =
     (let p1 = before_first CHR ''#'' (before_first CHR ''?'' p0);
          trailing_slash = endswith (rstrip p1) ''/'';
          p2 = normpath (unquote e p1);
          ws = filter (\<lambda>w. w \<noteq> []) (split_on CHR ''/'' p2);
          p3 = foldl (\<lambda>acc w. if CHR ''/'' \<in> set w \<or> w = ''.'' \<or> w = ''..'' then acc
                                 else path_join acc w) (directory e) ws
      in if trailing_slash then p3 @ ''/'' else p3)"

subsection \<open>\<open>mimetypes\<close>\<close>

text \<open>
  \<open>posixpath.splitext\<close>: the extension starts at the last dot of the last path
  component, unless only dots stand before it there.
\<close>

definition splitext :: "string \<Rightarrow> string \<times> string" where
  "splitext p =
     (let rbase = takeWhile (\<lambda>c. c \<noteq> CHR ''/'') (rev p);
          rext = takeWhile (\<lambda>c. c \<noteq> CHR ''.'') rbase
      in if length rext < length rbase
            \<and> filter (\<lambda>c. c \<noteq> CHR ''.'') (drop (Suc (length rext)) rbase) \<noteq> []
         then (take (length p - Suc (length rext)) p, drop (length p - Suc (length rext)) p)
         else (p, []))"

definition suffix_map :: "string \<Rightarrow> string option" where
  "suffix_map = map_of [(''.svgz'', ''.svg.gz''), (''.tgz'', ''.tar.gz''), (''.taz'', ''.tar.gz''),
                        (''.tz'', ''.tar.gz''), (''.tbz2'', ''.tar.bz2''), (''.txz'', ''.tar.xz'')]"

definition encodings_map :: "string \<Rightarrow> string option" where
  "encodings_map = map_of [(''.gz'', ''gzip''), (''.Z'', ''compress''), (''.bz2'', ''bzip2''),
                           (''.xz'', ''xz''), (''.br'', ''br'')]"

text \<open>
  \<open>mimetypes.add_type(type, ext)\<close> with \<open>strict=True\<close>: the extension's entry in the
  strict table is set, replacing an older one.  (The inverse table, which only
  \<open>guess_extension\<close> reads, is left out.)
\<close>

definition add_type :: "string \<Rightarrow> string \<Rightarrow> (string \<Rightarrow> string option) \<Rightarrow> (string \<Rightarrow> string option)" where
  "add_type ty ext db = db(ext \<mapsto> ty)"

text \<open>
  Lines 7 and 8 of \<open>server.py\<close>, run at import time on the database the host
  provides.
\<close>

definition register_types :: "(string \<Rightarrow> string option) \<Rightarrow> (string \<Rightarrow> string option)" where
  "register_types db = add_type ''text/css'' ''.css'' (add_type ''application/javascript'' ''.js'' db)"

text \<open>
  The loop \<open>while ext.lower() in suffix_map\<close> of \<open>MimeTypes.guess_type\<close>.  It ends
  because every replacement suffix ends in an extension that is not a key of the table.
\<close>

lemma suffix_map_range:
  "suffix_map x = Some suf \<Longrightarrow> suf \<in> {''.svg.gz'', ''.tar.gz'', ''.tar.bz2'', ''.tar.xz''}"
  by (simp add: suffix_map_def split: if_splits)

lemma splitext_replacement:
  "snd (splitext (b @ ''.svg.gz'')) = ''.gz''"
  "snd (splitext (b @ ''.tar.gz'')) = ''.gz''"
  "snd (splitext (b @ ''.tar.bz2'')) = ''.bz2''"
  "snd (splitext (b @ ''.tar.xz'')) = ''.xz''"
  by (simp_all add: splitext_def Let_def)

lemma suffix_map_compressed:
  "suffix_map (lower ''.gz'') = None"
  "suffix_map (lower ''.bz2'') = None"
  "suffix_map (lower ''.xz'') = None"
  by (simp_all add: suffix_map_def lower_def lower_char_def)

lemma suffix_step:
  assumes "suffix_map (lower ext) = Some suf"
  shows "suffix_map (lower (snd (splitext (base @ suf)))) = None"
proof -
  from suffix_map_range [OF assms]
  consider "suf = ''.svg.gz''" | "suf = ''.tar.gz''" | "suf = ''.tar.bz2''" | "suf = ''.tar.xz''"
    by blast
  then show ?thesis
  proof cases
    case 1 then show ?thesis by (simp only: splitext_replacement suffix_map_compressed)
  next
    case 2 then show ?thesis by (simp only: splitext_replacement suffix_map_compressed)
  next
    case 3 then show ?thesis by (simp only: splitext_replacement suffix_map_compressed)
  next
    case 4 then show ?thesis by (simp only: splitext_replacement suffix_map_compressed)
  qed
qed

function suffix_loop :: "string \<Rightarrow> string \<Rightarrow> string \<times> string" where
  "suffix_loop base ext =
     (case suffix_map (lower ext) of
        None \<Rightarrow> (base, ext)
      | Some suf \<Rightarrow> (case splitext (base @ suf) of (b, x) \<Rightarrow> suffix_loop b x))"
  by pat_completeness auto
termination
proof (relation "measure (\<lambda>(base, ext). if suffix_map (lower ext) = None then 0 else 1)", goal_cases)
  case 1
  show ?case by simp
next
  case (2 base ext suf b x)
  have "x = snd (splitext (base @ suf))" using 2(2) by (metis snd_conv)
  with suffix_step [OF 2(1)] have "suffix_map (lower x) = None" by simp
  with 2(1) show ?case by simp
qed

declare suffix_loop.simps [simp del]

text \<open>
  \<open>mimetypes.guess_type(url)[0]\<close> for a file name under the serving directory.  The
  name starts with a slash, so \<open>urlparse\<close> finds no scheme and the branches for a
  scheme and for \<open>data:\<close> URLs are not reached; \<open>splitdrive\<close> is the identity on
  POSIX.  With \<open>strict=True\<close> only the strict table is read.
\<close>

definition mimetypes_guess_type :: "(string \<Rightarrow> string option) \<Rightarrow> string \<Rightarrow> string option" where
  "mimetypes_guess_type db url =
     (case splitext url of (base0, ext0) \<Rightarrow>
        (case suffix_loop base0 ext0 of (base1, ext1) \<Rightarrow>
           (let ext2 = (if encodings_map ext1 \<noteq> None then snd (splitext base1) else ext1)
            in db (lower ext2))))"

subsection \<open>\<open>SimpleHTTPRequestHandler\<close>: serving files\<close>

definition extensions_map :: "string \<Rightarrow> string option" where
  "extensions_map = map_of [(''.gz'', ''application/gzip''), (''.Z'', ''application/octet-stream''),
                            (''.bz2'', ''application/x-bzip2''), (''.xz'', ''application/x-xz'')]"

definition guess_type :: "env \<Rightarrow> string \<Rightarrow> string" where
  "guess_type e p =
     (let ext = snd (splitext p) in
      case extensions_map ext of
        Some t \<Rightarrow> t
      | None \<Rightarrow>
          (case extensions_map (lower ext) of
             Some t \<Rightarrow> t
           | None \<Rightarrow>
               (case mimetypes_guess_type (mime_types e) p of
                  Some g \<Rightarrow> (if g \<noteq> [] then g else ''application/octet-stream'')
                | None \<Rightarrow> ''application/octet-stream'')))"

text \<open>
  \<open>self.headers\<close> is an \<open>email.message.Message\<close>: names compare without case and
  the first match is returned.
\<close>

definition get_header :: "(string \<times> string) list \<Rightarrow> string \<Rightarrow> string option" where
  "get_header hs name = map_of (map (\<lambda>(k, v). (lower k, v)) hs) (lower name)"

text \<open>
  The test of \<open>send_head\<close> for a conditional request: \<open>If-Modified-Since\<close> is there,
  \<open>If-None-Match\<close> is not, the date parses as UTC and the file is not newer.
\<close>

definition not_modified :: "env \<Rightarrow> handler \<Rightarrow> fileobj \<Rightarrow> bool" where
  "not_modified e s f =
     (case get_header (headers s) ''If-Modified-Since'' of
        None \<Rightarrow> False
      | Some d \<Rightarrow>
          (if get_header (headers s) ''If-None-Match'' \<noteq> None then False
           else (case parsedate_utc e d of
                   None \<Rightarrow> False
                 | Some ims \<Rightarrow> mtime f \<le> ims)))"

text \<open>
  \<open>send_head\<close> and \<open>list_directory\<close> return the file object to copy, or \<open>None\<close>;
  here the bytes to copy.  \<open>and_none\<close> is \<open>return None\<close> after a call that may
  raise.
\<close>

definition and_none :: "(exn \<times> handler) + handler \<Rightarrow> (exn \<times> handler) + (string option \<times> handler)" where
  "and_none r = (case r of Inl x \<Rightarrow> Inl x | Inr s \<Rightarrow> Inr (None, s))"

definition list_directory ::
  "env \<Rightarrow> handler \<Rightarrow> string \<Rightarrow> string \<Rightarrow> (exn \<times> handler) + (string option \<times> handler)" where
  "list_directory e s rp p =
     (case listdir e p of
        None \<Rightarrow> and_none (send_error e s 404 (Some ''No permission to list directory'') None)
      | Some names \<Rightarrow>
          (case listing_page e rp p names of
             None \<Rightarrow> Inl (UnicodeEncodeError, s)
           | Some encoded \<Rightarrow>
               (let s1 = send_response e s 200 None;
                    s2 = send_header s1 ''Content-type'' (''text/html; charset='' @ fs_encoding e);
                    s3 = send_header s2 ''Content-Length'' (str_nat (length encoded))
                in case end_headers s3 of
                     Inl x \<Rightarrow> Inl x
                   | Inr s4 \<Rightarrow> Inr (Some encoded, s4))))"

text \<open>
  The part of \<open>send_head\<close> from \<open>ctype = self.guess_type(path)\<close> on.  The
  \<open>open\<close> stands under \<open>except OSError\<close>: that exception is answered 404, a
  \<open>ValueError\<close> leaves the method.
\<close>

definition send_head_file ::
  "env \<Rightarrow> handler \<Rightarrow> string \<Rightarrow> (exn \<times> handler) + (string option \<times> handler)" where
  "send_head_file e s p =
     (let ctype = guess_type e p in
      if endswith p ''/'' then and_none (send_error e s 404 (Some ''File not found'') None)
      else
        (case open_rb e p of
           RaisedOSError \<Rightarrow> and_none (send_error e s 404 (Some ''File not found'') None)
         | RaisedValueError \<Rightarrow> Inl (ValueError, s)
         | Opened f \<Rightarrow>
             (if not_modified e s f
              then and_none (end_headers (send_response e s 304 None))
              else
                (let s1 = send_response e s 200 None;
                     s2 = send_header s1 ''Content-type'' ctype;
                     s3 = send_header s2 ''Content-Length'' (str_nat (length (contents f)));
                     s4 = send_header s3 ''Last-Modified'' (http_date e (mtime f))
                 in case end_headers s4 of
                      Inl x \<Rightarrow> Inl x
                    | Inr s5 \<Rightarrow> Inr (Some (contents f), s5)))))"

definition send_head :: "env \<Rightarrow> handler \<Rightarrow> (exn \<times> handler) + (string option \<times> handler)" where
  "send_head e s =
     (case path s of
        None \<Rightarrow> Inl (AttributeError ''path'', s)
      | Some rp \<Rightarrow>
          (let p = translate_path e rp in
           if isdir e p then
             (case urlsplit_path e rp of
                None \<Rightarrow> Inl (ValueError, s)
              | Some parts_path \<Rightarrow>
                  if \<not> endswith parts_path ''/'' then
                    (let s1 = send_response e s 301 None;
                         s2 = send_header s1 ''Location'' (redirect_url e rp);
                         s3 = send_header s2 ''Content-Length'' ''0''
                     in and_none (end_headers s3))
                  else if isfile e (path_join p ''index.html'') then
                    send_head_file e s (path_join p ''index.html'')
                  else if isfile e (path_join p ''index.htm'') then
                    send_head_file e s (path_join p ''index.htm'')
                  else list_directory e s rp p)
           else send_head_file e s p))"

definition do_GET :: "env \<Rightarrow> handler \<Rightarrow> (exn \<times> handler) + handler" where
  "do_GET e s =
     (case send_head e s of
        Inl x \<Rightarrow> Inl x
      | Inr (None, s1) \<Rightarrow> Inr s1
      | Inr (Some b, s1) \<Rightarrow> Inr (s1\<lparr>wfile_body := wfile_body s1 @ b\<rparr>))"

definition do_HEAD :: "env \<Rightarrow> handler \<Rightarrow> (exn \<times> handler) + handler" where
  "do_HEAD e s =
     (case send_head e s of
        Inl x \<Rightarrow> Inl x
      | Inr (f, s1) \<Rightarrow> Inr s1)"

subsection \<open>\<open>CustomHTTPRequestHandler.do_OPTIONS\<close> (\<open>server.py\<close>, lines 21--24)\<close>

definition do_OPTIONS :: "env \<Rightarrow> handler \<Rightarrow> (exn \<times> handler) + handler" where
  "do_OPTIONS e s = end_headers (send_response e s 200 None)"

subsection \<open>\<open>BaseHTTPRequestHandler\<close>: parsing and dispatch\<close>

text \<open>
  What arrives on a connection: the bytes of the request line as \<open>readline\<close> returns
  them, and what \<open>http.client.parse_headers\<close> makes of the lines after it: the
  header fields, or one of its two exceptions.
\<close>

datatype header_block = Headers "(string \<times> string) list" | LineTooLong | TooManyHeaders

text \<open>\<open>requestline.rstrip('\r\n')\<close> and \<open>requestline.split()\<close>.\<close>

definition strip_crlf :: "string \<Rightarrow> string" where
  "strip_crlf s = rev (dropWhile (\<lambda>c. c = CHR 0x0D \<or> c = CHR 0x0A) (rev s))"

fun split_space :: "string \<Rightarrow> string list" where
  "split_space [] = [[]]"
| "split_space (c # cs) =
     (if isspace c then [] # split_space cs
      else (case split_space cs of
              [] \<Rightarrow> [[c]]
            | w # ws \<Rightarrow> (c # w) # ws))"

definition py_split :: "string \<Rightarrow> string list" where
  "py_split s = filter (\<lambda>w. w \<noteq> []) (split_space s)"

text \<open>
  The version check of \<open>parse_request\<close>: \<open>HTTP/\<close>, then two components separated by
  one dot, each of one to ten decimal digits; \<open>None\<close> where the library raises
  \<open>ValueError\<close>.  (A character for which \<open>isdigit()\<close> holds and \<open>int()\<close> fails
  raises the same exception.)
\<close>

definition base_version_number :: "string \<Rightarrow> string" where
  "base_version_number version = drop 1 (dropWhile (\<lambda>c. c \<noteq> CHR ''/'') version)"

definition parse_version :: "string \<Rightarrow> (nat \<times> nat) option" where
  "parse_version version =
     (if \<not> startswith version ''HTTP/'' then None
      else
        (let version_number = split_on CHR ''.'' (base_version_number version) in
         if length version_number \<noteq> 2 then None
         else if list_ex (\<lambda>c. c = [] \<or> \<not> list_all isdigit c) version_number then None
         else if list_ex (\<lambda>c. 10 < length c) version_number then None
         else Some (int_of_digits (version_number ! 0), int_of_digits (version_number ! 1))))"

definition and_false :: "(exn \<times> handler) + handler \<Rightarrow> (exn \<times> handler) + (bool \<times> handler)" where
  "and_false r = (case r of Inl x \<Rightarrow> Inl x | Inr s \<Rightarrow> Inr (False, s))"

text \<open>The block of \<open>parse_request\<close> under \<open>if len(words) >= 3\<close>.\<close>

definition check_version :: "env \<Rightarrow> handler \<Rightarrow> string \<Rightarrow> (exn \<times> handler) + (bool \<times> handler)" where
  "check_version e s version =
     (case parse_version version of
        None \<Rightarrow>
          and_false (send_error e s 400
                       (Some (''Bad request version ('' @ py_repr e version @ '')'')) None)
      | Some (major, minor) \<Rightarrow>
          (if 2 < major \<or> (major = 2 \<and> 0 \<le> minor) then
             and_false (send_error e s 505
                          (Some (''Invalid HTTP version ('' @ base_version_number version @ '')'')) None)
           else Inr (True, s\<lparr>request_version := version\<rparr>)))"

text \<open>
  The block of \<open>parse_request\<close> that reduces a leading \<open>//\<close> of the target to one
  slash: \<open>'/' + self.path.lstrip('/')\<close>.
\<close>

definition single_slash :: "string \<Rightarrow> string" where
  "single_slash p =
     (if startswith p ''//'' then CHR ''/'' # dropWhile (\<lambda>c. c = CHR ''/'') p else p)"

text \<open>
  \<open>parse_request\<close>.  Every error before the assignment
  \<open>self.command, self.path = command, path\<close> goes through \<open>send_error\<close> while the
  handler has no \<open>path\<close>.
\<close>

definition parse_request ::
  "env \<Rightarrow> handler \<Rightarrow> string \<Rightarrow> header_block \<Rightarrow> (exn \<times> handler) + (bool \<times> handler)" where
  "parse_request e s0 raw_requestline hb =
     (let s = s0\<lparr>command := None, request_version := ''HTTP/0.9''\<rparr>;
          requestline = strip_crlf raw_requestline;
          ws = py_split requestline
      in if ws = [] then Inr (False, s)
         else
           (case (if 3 \<le> length ws then check_version e s (last ws) else Inr (True, s)) of
              Inl x \<Rightarrow> Inl x
            | Inr (ok, s1) \<Rightarrow>
                if \<not> ok then Inr (False, s1)
                else if \<not> (2 \<le> length ws \<and> length ws \<le> 3) then
                  and_false (send_error e s1 400
                               (Some (''Bad request syntax ('' @ py_repr e requestline @ '')'')) None)
                else
                  (let cmd = ws ! 0; p = ws ! 1 in
                   if length ws = 2 \<and> cmd \<noteq> ''GET'' then
                     and_false (send_error e s1 400
                                  (Some (''Bad HTTP/0.9 request type ('' @ py_repr e cmd @ '')'')) None)
                   else
                     (let s2 = s1\<lparr>command := Some cmd, path := Some (single_slash p)\<rparr>
                      in case hb of
                           LineTooLong \<Rightarrow>
                             and_false (send_error e s2 431 (Some ''Line too long'')
                                          (Some ''got more than 65536 bytes when reading header line''))
                         | TooManyHeaders \<Rightarrow>
                             and_false (send_error e s2 431 (Some ''Too many headers'')
                                          (Some ''got more than 100 headers''))
                         | Headers hs \<Rightarrow> Inr (True, s2\<lparr>headers := hs\<rparr>)))))"

text \<open>
  The methods \<open>hasattr(self, 'do_' + self.command)\<close> finds on a
  \<open>CustomHTTPRequestHandler\<close>: \<open>do_GET\<close> and \<open>do_HEAD\<close> are inherited,
  \<open>do_OPTIONS\<close> is defined in \<open>server.py\<close>, and there is no other.
\<close>

definition do_methods :: "string list" where
  "do_methods = [''do_GET'', ''do_HEAD'', ''do_OPTIONS'']"

definition call_method :: "string \<Rightarrow> env \<Rightarrow> handler \<Rightarrow> (exn \<times> handler) + handler" where
  "call_method mname e s =
     (if mname = ''do_GET'' then do_GET e s
      else if mname = ''do_HEAD'' then do_HEAD e s
      else do_OPTIONS e s)"

definition handle_one_request ::
  "env \<Rightarrow> handler \<Rightarrow> string \<Rightarrow> header_block \<Rightarrow> (exn \<times> handler) + handler" where
  "handle_one_request e s raw_requestline hb =
     (if 65536 < length raw_requestline then
        send_error e (s\<lparr>request_version := [], command := Some []\<rparr>) 414 None None
      else if raw_requestline = [] then Inr s
      else
        (case parse_request e s raw_requestline hb of
           Inl x \<Rightarrow> Inl x
         | Inr (ok, s1) \<Rightarrow>
             if \<not> ok then Inr s1
             else
               (case command s1 of
                  None \<Rightarrow> Inl (TypeError, s1)
                | Some c \<Rightarrow>
                    (let mname = ''do_'' @ c in
                     if mname \<notin> set do_methods then
                       send_error e s1 501
                         (Some (''Unsupported method ('' @ py_repr e c @ '')'')) None
                     else call_method mname e s1))))"

text \<open>
  A fresh handler is made for every connection; \<open>handle\<close> runs
  \<open>handle_one_request\<close> once on it (\<open>close_connection\<close> is true afterwards, see
  above).  \<open>sent\<close> is what the client has received when the handler is done or has
  raised: the head lines and the body.
\<close>

definition new_handler :: handler where
  "new_handler = \<lparr>command = None, path = None, request_version = [], headers = [],
                   headers_buffer = [], wfile_head = [], wfile_body = []\<rparr>"

definition handle :: "env \<Rightarrow> string \<Rightarrow> header_block \<Rightarrow> (exn \<times> handler) + handler" where
  "handle e raw_requestline hb = handle_one_request e new_handler raw_requestline hb"

definition final_state :: "(exn \<times> handler) + handler \<Rightarrow> handler" where
  "final_state r = (case r of Inl (x, s) \<Rightarrow> s | Inr s \<Rightarrow> s)"

definition sent_head :: "(exn \<times> handler) + handler \<Rightarrow> hline list" where
  "sent_head r = wfile_head (final_state r)"

definition sent_body :: "(exn \<times> handler) + handler \<Rightarrow> string" where
  "sent_body r = wfile_body (final_state r)"

subsection \<open>Reading a response head\<close>

text \<open>The status code of the first line, the fields, and the values of one field
  (names compare without case, as HTTP has it).\<close>

definition status_code :: "hline list \<Rightarrow> nat option" where
  "status_code ls = (case ls of StatusLine v c m # r \<Rightarrow> Some c | _ \<Rightarrow> None)"

fun header_fields :: "hline list \<Rightarrow> (string \<times> string) list" where
  "header_fields [] = []"
| "header_fields (HeaderLine k v # r) = (k, v) # header_fields r"
| "header_fields (l # r) = header_fields r"

definition field_values :: "string \<Rightarrow> hline list \<Rightarrow> string list" where
  "field_values name ls = map snd (filter (\<lambda>(k, v). lower k = lower name) (header_fields ls))"

definition cors_headers :: "(string \<times> string) list" where
  "cors_headers = [(''Access-Control-Allow-Origin'', ''*''),
                   (''Access-Control-Allow-Methods'', ''GET, POST, OPTIONS''),
                   (''Access-Control-Allow-Headers'', ''Content-Type'')]"

subsection \<open>\<open>socketserver.TCPServer\<close> and the main block (\<open>server.py\<close>, lines 26--40)\<close>

text \<open>
  What happens while the server runs: a connection arrives with a request, or the process
  is interrupted (\<open>SIGINT\<close>, which Python raises as \<open>KeyboardInterrupt\<close> in the main
  thread).  The list is a finite prefix of what happens; when it is used up the server is
  still waiting in \<open>select\<close>.
\<close>

datatype event = Connection string header_block | Interrupt

type_synonym reply = "hline list \<times> string"

definition reply :: "env \<Rightarrow> string \<Rightarrow> header_block \<Rightarrow> reply" where
  "reply e raw hb = (sent_head (handle e raw hb), sent_body (handle e raw hb))"

text \<open>
  \<open>serve_forever\<close>: each connection gets a handler of its own.  An exception of the
  handler is an \<open>Exception\<close>, which \<open>_handle_request_noblock\<close> catches and reports
  on stderr before the loop goes on, so the connection only gets what had been written;
  \<open>KeyboardInterrupt\<close> is not caught there and leaves the loop.  The result is the
  replies so far and whether the loop was left by the interrupt.
\<close>

fun serve_forever :: "env \<Rightarrow> event list \<Rightarrow> reply list \<Rightarrow> reply list \<times> bool" where
  "serve_forever e [] rs = (rs, False)"
| "serve_forever e (Connection raw hb # evs) rs = serve_forever e evs (rs @ [reply e raw hb])"
| "serve_forever e (Interrupt # evs) rs = (rs, True)"

datatype socket_state = Unbound | Listening | Closed

definition server_close :: "socket_state \<Rightarrow> socket_state" where
  "server_close s = Closed"

text \<open>
  The process: the lines printed, the listening socket, the replies sent and the exit
  code (\<open>None\<close> while the process runs).
\<close>

record process =
  stdout :: "string list"
  sock :: socket_state
  replies :: "reply list"
  exit_code :: "nat option"

definition PORT :: nat where
  "PORT = 8000"

text \<open>
  The module from top to bottom, on the host's environment: the two \<open>add_type\<close>
  calls, the two \<open>print\<close>s, then \<open>with TCPServer(...) as httpd\<close>.  The directory
  printed is \<open>current_dir\<close>, which the process has just changed into; it is taken to
  be what \<open>os.getcwd()\<close> returns afterwards (no symbolic link on the way).  When the bind
  fails the constructor closes the socket and raises \<open>OSError\<close>, which nothing
  catches: exit code 1.  \<open>KeyboardInterrupt\<close> out of \<open>serve_forever\<close> is caught:
  the notice is printed, \<open>server_close\<close> is called, the \<open>with\<close> block calls it once
  more on the way out, and the module ends: exit code 0.
\<close>

definition server_env :: "env \<Rightarrow> env" where
  "server_env host = host\<lparr>mime_types := register_types (mime_types host)\<rparr>"

definition main :: "env \<Rightarrow> bool \<Rightarrow> event list \<Rightarrow> process" where
  "main host bind_ok evs =
     (let e = server_env host;
          out = [''Starting server at http://localhost:'' @ str_nat PORT,
                 ''Serving files from: '' @ directory e]
      in if \<not> bind_ok then
           \<lparr>stdout = out, sock = server_close Unbound, replies = [], exit_code = Some 1\<rparr>
         else
           (case serve_forever e evs [] of
              (rs, interrupted) \<Rightarrow>
                if interrupted then
                  \<lparr>stdout = out @ [CHR 0x0A # ''Server stopped.''],
                   sock = server_close (server_close Listening), replies = rs, exit_code = Some 0\<rparr>
                else
                  \<lparr>stdout = out, sock = Listening, replies = rs, exit_code = None\<rparr>))"

section \<open>Notions of the statements and of the proofs\<close>

subsection \<open>Requests and heads\<close>

text \<open>
  The requests the handler accepts: the request line is short enough and
  \<open>parse_request\<close> returns true, leaving the handler \<open>s1\<close>.  The target of
  the request line is its second word, as the client wrote it (\<open>request_target\<close>)
  and as \<open>parse_request\<close> stores it in \<open>self.path\<close>, query string and all, with
  a leading \<open>//\<close> reduced (\<open>target_path\<close>).
\<close>

definition accepted :: "env \<Rightarrow> string \<Rightarrow> header_block \<Rightarrow> handler \<Rightarrow> bool" where
  "accepted e raw hb s1 = (length raw \<le> 65536 \<and> parse_request e new_handler raw hb = Inr (True, s1))"

definition request_target :: "string \<Rightarrow> string option" where
  "request_target raw = (case py_split (strip_crlf raw) of cmd # t # rest \<Rightarrow> Some t | _ \<Rightarrow> None)"

definition target_path :: "string \<Rightarrow> string option" where
  "target_path raw =
     (case py_split (strip_crlf raw) of cmd # t # rest \<Rightarrow> Some (single_slash t) | _ \<Rightarrow> None)"

text \<open>
  The three lines \<open>send_response\<close> puts into the buffer, and what the override of
  \<open>end_headers\<close> appends to the buffer before it is flushed, for a handler whose
  \<open>path\<close> is \<open>p\<close>.
\<close>

definition lib_head :: "env \<Rightarrow> nat \<Rightarrow> string \<Rightarrow> hline list" where
  "lib_head e code msg =
     [StatusLine protocol_version code msg, HeaderLine ''Server'' (version_string e),
      HeaderLine ''Date'' (date_now e)]"

definition cors_block :: "string \<Rightarrow> hline list" where
  "cors_block p =
     map (\<lambda>(k, v). HeaderLine k v) cors_headers
     @ (if endswith p ''.js'' then [HeaderLine ''Content-Type'' ''application/javascript''] else [])
     @ [BlankLine]"

text \<open>
  What a method has sent when it returns: the head and the body.  The reply to an event
  of the serving loop.
\<close>

definition sends :: "(exn \<times> handler) + handler \<Rightarrow> hline list \<Rightarrow> string \<Rightarrow> bool" where
  "sends r h b = (\<exists>s. r = Inr s \<and> wfile_head s = h \<and> wfile_body s = b)"

definition answer :: "env \<Rightarrow> event \<Rightarrow> reply" where
  "answer e ev = (case ev of Connection raw hb \<Rightarrow> reply e raw hb | Interrupt \<Rightarrow> ([], []))"

subsection \<open>Invariants of the handler\<close>

text \<open>
  The lines the library methods put into the buffer (\<open>lib_line\<close>): a status line, or
  a field whose name is one of seven and which is not the forced content type.  A handler
  is \<open>fresh\<close> before a response is begun, \<open>ready\<close> when its buffer holds library
  lines only (starting with a status line unless the request is HTTP/0.9), and
  \<open>answered\<close> when nothing has been sent or the head that has been sent is library
  lines followed by the block of the override.
\<close>

definition lib_keys :: "string list" where
  "lib_keys = [''server'', ''date'', ''connection'', ''content-length'', ''content-type'',
               ''last-modified'', ''location'']"

definition lib_line :: "hline \<Rightarrow> bool" where
  "lib_line l =
     (case l of
        StatusLine v c m \<Rightarrow> True
      | HeaderLine k v \<Rightarrow> lower k \<in> set lib_keys \<and> (k, v) \<noteq> (''Content-Type'', ''application/javascript'')
      | BlankLine \<Rightarrow> False)"

definition fresh :: "handler \<Rightarrow> bool" where
  "fresh s = (headers_buffer s = [] \<and> wfile_head s = [])"

definition ready :: "handler \<Rightarrow> bool" where
  "ready s = (wfile_head s = [] \<and> list_all lib_line (headers_buffer s)
              \<and> (request_version s \<noteq> ''HTTP/0.9'' \<longrightarrow> status_code (headers_buffer s) \<noteq> None))"

definition shaped :: "handler \<Rightarrow> bool" where
  "shaped s = (\<exists>pre p. path s = Some p \<and> list_all lib_line pre \<and> status_code pre \<noteq> None
                 \<and> wfile_head s = pre @ cors_block p)"

definition answered :: "handler \<Rightarrow> bool" where
  "answered s = (wfile_head s = [] \<or> shaped s)"

text \<open>
  The results of the methods: a method that raises has sent nothing, one that returns
  leaves the handler answered; a handler that parsed is still fresh.  And \<open>self.path\<close>
  is unset or the target of the request line (\<open>lands\<close>).
\<close>

definition outcome :: "(exn \<times> handler) + handler \<Rightarrow> bool" where
  "outcome r = (case r of Inl (x, s) \<Rightarrow> wfile_head s = [] | Inr s \<Rightarrow> answered s)"

definition outcome2 :: "(exn \<times> handler) + ('a \<times> handler) \<Rightarrow> bool" where
  "outcome2 r = (case r of Inl (x, s) \<Rightarrow> wfile_head s = [] | Inr (b, s) \<Rightarrow> answered s)"

definition outcome3 :: "(exn \<times> handler) + (bool \<times> handler) \<Rightarrow> bool" where
  "outcome3 r =
     (case r of Inl (x, s) \<Rightarrow> wfile_head s = [] | Inr (ok, s) \<Rightarrow> if ok then fresh s else answered s)"

definition lands :: "string option \<Rightarrow> (exn \<times> handler) + ('a \<times> handler) \<Rightarrow> bool" where
  "lands T r =
     (case r of Inl (x, s) \<Rightarrow> path s = None \<or> path s = T
              | Inr (b, s) \<Rightarrow> path s = None \<or> path s = T)"

subsection \<open>An example host\<close>

text \<open>
  A host to evaluate on: the server's directory \<open>/srv\<close> holds four files, the host's
  MIME table knows \<open>.html\<close>, \<open>.txt\<close> and (as \<open>text/javascript\<close>) \<open>.js\<close>.
  \<open>demo_env\<close> is that host after the two \<open>add_type\<close> calls of \<open>server.py\<close>.
\<close>

definition crlf :: string where
  "crlf = [CHR 0x0D, CHR 0x0A]"

definition demo_host :: env where
  "demo_host =
     \<lparr>cwd_tail = ''srv'',
      isdir = (\<lambda>p. p = ''/srv'' \<or> p = ''/srv/''),
      isfile = (\<lambda>p. p = ''/srv/index.html'' \<or> p = ''/srv/app.js'' \<or> p = ''/srv/style.css''
                   \<or> p = ''/srv/notes.txt''),
      listdir = (\<lambda>p. if p = ''/srv'' \<or> p = ''/srv/''
                    then Some [''index.html'', ''app.js'', ''style.css'', ''notes.txt''] else None),
      open_rb = (\<lambda>p. if CHR 0x00 \<in> set p then RaisedValueError
                     else (case map_of [(''/srv/index.html'', \<lparr>contents = ''<html></html>'', mtime = 1000\<rparr>),
                                        (''/srv/app.js'', \<lparr>contents = ''let x = 1;'', mtime = 1000\<rparr>),
                                        (''/srv/style.css'', \<lparr>contents = ''body {}'', mtime = 1000\<rparr>),
                                        (''/srv/notes.txt'', \<lparr>contents = ''hello'', mtime = 1000\<rparr>)] p of
                             Some f \<Rightarrow> Opened f
                           | None \<Rightarrow> RaisedOSError)),
      mime_types = map_of [(''.html'', ''text/html''), (''.txt'', ''text/plain''),
                           (''.js'', ''text/javascript'')],
      unquote_escapes = (\<lambda>s. s),
      urlsplit_path = (\<lambda>s. Some (before_first CHR ''#'' (before_first CHR ''?'' s))),
      redirect_url = (\<lambda>s. s @ ''/''),
      parsedate_utc = (\<lambda>d. if d = ''Thu, 01 Jan 1970 01:00:00 GMT'' then Some 3600 else None),
      version_string = ''SimpleHTTP/0.6 Python/3.11.10'',
      date_now = ''Wed, 04 Nov 2026 10:00:00 GMT'',
      http_date = (\<lambda>t. if t = 1000 then ''Thu, 01 Jan 1970 00:16:40 GMT'' else []),
      py_repr = (\<lambda>s. [CHR 0x27] @ s @ [CHR 0x27]),
      error_page = (\<lambda>code msg explain. ''<p>Error code: '' @ str_nat code @ ''</p>''),
      listing_page = (\<lambda>rp p names. Some ''<ul></ul>''),
      fs_encoding = ''utf-8''\<rparr>"

definition demo_env :: env where
  "demo_env = server_env demo_host"



section \<open>Properties\<close>

subsection \<open>The header buffer\<close>

lemma send_header_sel [simp]:
  "path (send_header s k v) = path s"
  "command (send_header s k v) = command s"
  "request_version (send_header s k v) = request_version s"
  "headers (send_header s k v) = headers s"
  "wfile_head (send_header s k v) = wfile_head s"
  "wfile_body (send_header s k v) = wfile_body s"
  "headers_buffer (send_header s k v) =
     (if request_version s \<noteq> ''HTTP/0.9'' then headers_buffer s @ [HeaderLine k v] else headers_buffer s)"
  by (simp_all add: send_header_def)

lemma send_response_only_sel [simp]:
  "path (send_response_only s c m) = path s"
  "command (send_response_only s c m) = command s"
  "request_version (send_response_only s c m) = request_version s"
  "headers (send_response_only s c m) = headers s"
  "wfile_head (send_response_only s c m) = wfile_head s"
  "wfile_body (send_response_only s c m) = wfile_body s"
  by (simp_all add: send_response_only_def Let_def)

lemma send_response_sel [simp]:
  "path (send_response e s c m) = path s"
  "command (send_response e s c m) = command s"
  "request_version (send_response e s c m) = request_version s"
  "headers (send_response e s c m) = headers s"
  "wfile_head (send_response e s c m) = wfile_head s"
  "wfile_body (send_response e s c m) = wfile_body s"
  by (simp_all add: send_response_def Let_def)

lemma end_headers_None: "path s = None \<Longrightarrow> \<exists>s'. end_headers s = Inl (AttributeError ''path'', s') \<and> wfile_head s' = wfile_head s \<and> wfile_body s' = wfile_body s"
  by (simp add: end_headers_def Let_def)

lemma end_headers_Some:
  "path s = Some p \<Longrightarrow>
   end_headers s = Inr (if request_version s = ''HTTP/0.9'' then s
                        else s\<lparr>wfile_head := wfile_head s @ headers_buffer s @ cors_block p, headers_buffer := []\<rparr>)"
  by (simp add: end_headers_def Let_def super_end_headers_def flush_headers_def send_header_def cors_block_def cors_headers_def)

subsection \<open>Every head that is sent ends in the injected block\<close>

lemma lower_keys:
  "lower ''Server'' = ''server''" "lower ''Date'' = ''date''" "lower ''Connection'' = ''connection''"
  "lower ''Content-Length'' = ''content-length''" "lower ''Content-Type'' = ''content-type''"
  "lower ''Content-type'' = ''content-type''" "lower ''Last-Modified'' = ''last-modified''"
  "lower ''Location'' = ''location''"
  "lower ''Access-Control-Allow-Origin'' = ''access-control-allow-origin''"
  "lower ''Access-Control-Allow-Methods'' = ''access-control-allow-methods''"
  "lower ''Access-Control-Allow-Headers'' = ''access-control-allow-headers''"
  by (simp_all add: lower_def lower_char_def)

lemma status_code_append: "status_code xs \<noteq> None \<Longrightarrow> status_code (xs @ ys) = status_code xs"
  by (cases xs) (auto simp: status_code_def split: hline.splits)

lemma ready_send_response: "fresh s \<Longrightarrow> ready (send_response e s c m)"
  by (simp add: fresh_def ready_def send_response_def send_response_only_def Let_def
      lib_line_def lib_keys_def lower_keys status_code_def)

lemma ready_send_header:
  "ready s \<Longrightarrow> lower k \<in> set lib_keys \<Longrightarrow> (k, v) \<noteq> (''Content-Type'', ''application/javascript'')
   \<Longrightarrow> ready (send_header s k v)"
  by (auto simp add: ready_def lib_line_def status_code_append)

lemma end_headers_outcome: "ready s \<Longrightarrow> outcome (end_headers s)"
proof (cases "path s")
  case None
  assume "ready s"
  with end_headers_None [OF None] show ?thesis
    by (auto simp: outcome_def ready_def)
next
  case (Some p)
  assume r: "ready s"
  show ?thesis
  proof (cases "request_version s = ''HTTP/0.9''")
    case True
    with r Some show ?thesis
      by (simp add: end_headers_Some outcome_def answered_def ready_def)
  next
    case False
    with r have "shaped (s\<lparr>wfile_head := wfile_head s @ headers_buffer s @ cors_block p, headers_buffer := []\<rparr>)"
      unfolding shaped_def ready_def using Some
      by (intro exI [of _ "headers_buffer s"] exI [of _ p]) simp
    with False Some show ?thesis
      by (simp add: end_headers_Some outcome_def answered_def)
  qed
qed

lemma answered_body: "answered s \<Longrightarrow> answered (s\<lparr>wfile_body := b\<rparr>)"
  by (simp add: answered_def shaped_def)

lemma outcome_map:
  "outcome r \<Longrightarrow> (\<And>s. answered s \<Longrightarrow> answered (f s))
   \<Longrightarrow> outcome (case r of Inl x \<Rightarrow> Inl x | Inr s \<Rightarrow> Inr (f s))"
  by (auto simp: outcome_def split: sum.splits)

lemma outcome2_pair:
  "outcome r \<Longrightarrow> outcome2 (case r of Inl x \<Rightarrow> Inl x | Inr s \<Rightarrow> Inr (b, s))"
  by (auto simp: outcome_def outcome2_def split: sum.splits)

lemma and_none_outcome: "outcome r \<Longrightarrow> outcome2 (and_none r)"
  unfolding and_none_def by (rule outcome2_pair)

lemma ready_lib:
  "ready s \<Longrightarrow> ready (send_header s ''Connection'' v)"
  "ready s \<Longrightarrow> ready (send_header s ''Content-Length'' v)"
  "ready s \<Longrightarrow> ready (send_header s ''Content-type'' v)"
  "ready s \<Longrightarrow> ready (send_header s ''Last-Modified'' v)"
  "ready s \<Longrightarrow> ready (send_header s ''Location'' v)"
  "ready s \<Longrightarrow> ready (send_header s ''Content-Type'' error_content_type)"
  by (rule ready_send_header; simp add: lower_keys lib_keys_def error_content_type_def)+

lemma send_error_outcome: "fresh s \<Longrightarrow> outcome (send_error e s c m x)"
  unfolding send_error_def Let_def
  by (rule outcome_map, rule end_headers_outcome)
     (auto intro!: ready_lib ready_send_response answered_body)

lemma outcome2_raise: "fresh s \<Longrightarrow> outcome2 (Inl (x, s))"
  by (simp add: outcome2_def fresh_def)

lemma list_directory_outcome: "fresh s \<Longrightarrow> outcome2 (list_directory e s rp p)"
  unfolding list_directory_def Let_def
  by (auto split: option.splits
        intro!: and_none_outcome send_error_outcome outcome2_pair end_headers_outcome
                ready_lib ready_send_response outcome2_raise)

lemma send_head_file_outcome: "fresh s \<Longrightarrow> outcome2 (send_head_file e s p)"
  unfolding send_head_file_def Let_def
  by (auto split: open_result.splits
        intro!: and_none_outcome send_error_outcome outcome2_pair end_headers_outcome
                ready_lib ready_send_response outcome2_raise)

lemma send_head_outcome: "fresh s \<Longrightarrow> outcome2 (send_head e s)"
  unfolding send_head_def Let_def
  by (auto split: option.splits
        intro!: and_none_outcome end_headers_outcome send_head_file_outcome
                list_directory_outcome ready_lib ready_send_response outcome2_raise)

lemma do_GET_outcome: "fresh s \<Longrightarrow> outcome (do_GET e s)"
  using send_head_outcome [of s e]
  by (auto simp: do_GET_def outcome_def outcome2_def answered_body split: sum.splits option.splits)

lemma do_HEAD_outcome: "fresh s \<Longrightarrow> outcome (do_HEAD e s)"
  using send_head_outcome [of s e]
  by (auto simp: do_HEAD_def outcome_def outcome2_def split: sum.splits)

lemma do_OPTIONS_outcome: "fresh s \<Longrightarrow> outcome (do_OPTIONS e s)"
  unfolding do_OPTIONS_def by (rule end_headers_outcome [OF ready_send_response])

subsection \<open>Parsing and dispatch\<close>

lemma and_false_not_True: "and_false r \<noteq> Inr (True, s)"
  by (simp add: and_false_def split: sum.splits)

lemma and_false_outcome: "outcome r \<Longrightarrow> outcome2 (and_false r)"
  unfolding and_false_def by (rule outcome2_pair)

lemma check_version_True:
  "check_version e s v = Inr (True, s1) \<Longrightarrow>
     s1 = s\<lparr>request_version := v\<rparr> \<and> (\<exists>mj mn. parse_version v = Some (mj, mn) \<and> mj < 2)"
  by (auto simp: check_version_def and_false_not_True split: option.splits if_splits)

lemma parse_request_True:
  assumes "parse_request e s0 raw hb = Inr (True, s1)"
  shows "\<exists>cmd t rest hs.
           py_split (strip_crlf raw) = cmd # t # rest \<and> hb = Headers hs
           \<and> (rest = [] \<and> cmd = ''GET''
               \<or> (\<exists>v mj mn. rest = [v] \<and> parse_version v = Some (mj, mn) \<and> mj < 2))
           \<and> s1 = s0\<lparr>command := Some cmd, path := Some (single_slash t),
                      request_version := (if rest = [] then ''HTTP/0.9'' else last rest),
                      headers := hs\<rparr>"
proof -
  let ?ws = "py_split (strip_crlf raw)"
  let ?s = "s0\<lparr>command := None, request_version := ''HTTP/0.9''\<rparr>"
  from assms have ne: "?ws \<noteq> []"
    by (auto simp: parse_request_def Let_def)
  show ?thesis
  proof (cases "3 \<le> length ?ws")
    case True
    with assms ne obtain sv where cv: "check_version e ?s (last ?ws) = Inr (True, sv)"
      by (auto simp: parse_request_def Let_def split: sum.splits if_splits)
    from check_version_True [OF cv] obtain mj mn where
      sv: "sv = ?s\<lparr>request_version := last ?ws\<rparr>" and pv: "parse_version (last ?ws) = Some (mj, mn)" "mj < 2"
      by blast
    from assms ne True cv have len: "length ?ws = 3"
      by (auto simp: parse_request_def Let_def and_false_not_True split: if_splits)
    then obtain cmd t v where ws: "?ws = [cmd, t, v]"
      by (cases ?ws; simp; (cases "tl ?ws"; simp); (cases "tl (tl ?ws)"; simp))
    from assms ne True cv len ws sv obtain hs where
      "hb = Headers hs" "s1 = sv\<lparr>command := Some cmd, path := Some (single_slash t), headers := hs\<rparr>"
      by (auto simp: parse_request_def Let_def and_false_not_True split: if_splits header_block.splits)
    with ws sv pv show ?thesis by auto
  next
    case False
    with assms ne have len: "length ?ws = 2"
      by (auto simp: parse_request_def Let_def and_false_not_True split: if_splits)
    then obtain cmd t where ws: "?ws = [cmd, t]"
      by (cases ?ws; simp; (cases "tl ?ws"; simp))
    from assms ne False len ws obtain hs where
      "cmd = ''GET''" "hb = Headers hs" "s1 = ?s\<lparr>command := Some cmd, path := Some (single_slash t), headers := hs\<rparr>"
      by (auto simp: parse_request_def Let_def and_false_not_True split: if_splits header_block.splits)
    with ws show ?thesis by auto
  qed
qed

lemma fresh_update [simp]:
  "fresh (s\<lparr>command := c\<rparr>) = fresh s"
  "fresh (s\<lparr>path := p\<rparr>) = fresh s"
  "fresh (s\<lparr>request_version := v\<rparr>) = fresh s"
  "fresh (s\<lparr>headers := h\<rparr>) = fresh s"
  by (simp_all add: fresh_def)

lemma fresh_answered: "fresh s \<Longrightarrow> answered s"
  by (simp add: fresh_def answered_def)

text \<open>The same for the result of \<open>parse_request\<close>: a handler that parsed is still fresh.\<close>

lemma and_false_outcome3: "outcome r \<Longrightarrow> outcome3 (and_false r)"
  by (auto simp: outcome_def outcome3_def and_false_def split: sum.splits)

lemma outcome3_True: "fresh s \<Longrightarrow> outcome3 (Inr (True, s))"
  by (simp add: outcome3_def)

lemma outcome3_False: "fresh s \<Longrightarrow> outcome3 (Inr (False, s))"
  by (simp add: outcome3_def fresh_answered)

lemma outcome3_bind:
  assumes "outcome3 r" and "\<And>s1. fresh s1 \<Longrightarrow> outcome3 (f s1)"
  shows "outcome3 (case r of Inl x \<Rightarrow> Inl x | Inr (ok, s1) \<Rightarrow> if \<not> ok then Inr (False, s1) else f s1)"
proof (cases r)
  case (Inl a)
  with assms(1) show ?thesis by (simp add: outcome3_def)
next
  case (Inr b)
  obtain ok s1 where b: "b = (ok, s1)" by (cases b)
  show ?thesis
  proof (cases ok)
    case True
    with assms(1) Inr b have "fresh s1" by (simp add: outcome3_def)
    from assms(2) [OF this] Inr b True show ?thesis by simp
  next
    case False
    with assms(1) Inr b show ?thesis by (simp add: outcome3_def)
  qed
qed

lemma outcome_bind:
  assumes "outcome3 r" and "\<And>s1. fresh s1 \<Longrightarrow> outcome (g s1)"
  shows "outcome (case r of Inl x \<Rightarrow> Inl x | Inr (ok, s1) \<Rightarrow> if \<not> ok then Inr s1 else g s1)"
proof (cases r)
  case (Inl a)
  with assms(1) show ?thesis by (simp add: outcome3_def outcome_def)
next
  case (Inr b)
  obtain ok s1 where b: "b = (ok, s1)" by (cases b)
  show ?thesis
  proof (cases ok)
    case True
    with assms(1) Inr b have "fresh s1" by (simp add: outcome3_def)
    from assms(2) [OF this] Inr b True show ?thesis by simp
  next
    case False
    with assms(1) Inr b show ?thesis by (simp add: outcome3_def outcome_def)
  qed
qed

lemma fresh_head: "fresh s \<Longrightarrow> wfile_head s = []"
  by (simp add: fresh_def)

lemma check_version_outcome: "fresh s \<Longrightarrow> outcome3 (check_version e s v)"
  unfolding check_version_def
  by (auto split: option.splits intro!: and_false_outcome3 send_error_outcome outcome3_True)

lemma parse_request_outcome: "fresh s0 \<Longrightarrow> outcome3 (parse_request e s0 raw hb)"
  unfolding parse_request_def Let_def
  by (auto split: header_block.splits
        intro!: outcome3_bind outcome3_True outcome3_False check_version_outcome
                and_false_outcome3 send_error_outcome)

lemma call_method_outcome: "fresh s \<Longrightarrow> outcome (call_method m e s)"
  by (simp add: call_method_def do_GET_outcome do_HEAD_outcome do_OPTIONS_outcome)

lemma handle_one_request_outcome: "fresh s \<Longrightarrow> outcome (handle_one_request e s raw hb)"
  unfolding handle_one_request_def Let_def
  by (auto split: option.splits simp: outcome_def [of "Inr s"] outcome_def [of "Inl _"] fresh_answered fresh_head
        intro!: outcome_bind parse_request_outcome send_error_outcome call_method_outcome)

lemma handle_answered: "answered (final_state (handle e raw hb))"
proof -
  have "fresh new_handler" by (simp add: fresh_def new_handler_def)
  from handle_one_request_outcome [OF this, of e raw hb] show ?thesis
    by (auto simp: handle_def outcome_def final_state_def answered_def split: sum.splits)
qed

subsection \<open>What each method sends\<close>

lemma send_response_buffer:
  "headers_buffer (send_response e s code m) =
     (if request_version s = ''HTTP/0.9'' then headers_buffer s
      else headers_buffer s @ lib_head e code
             (case m of Some m \<Rightarrow> m | None \<Rightarrow> (case responses code of Some p \<Rightarrow> p | None \<Rightarrow> [])))"
  by (simp add: send_response_def send_response_only_def send_header_def Let_def lib_head_def)

lemma responses_simps:
  "responses 200 = Some ''OK''" "responses 304 = Some ''Not Modified''" "responses 404 = Some ''Not Found''"
  "responses 501 = Some ''Not Implemented''" "responses 301 = Some ''Moved Permanently''"
  by (simp_all add: responses_def)

lemma sends_sent: "sends r h b \<Longrightarrow> sent_head r = h \<and> sent_body r = b"
  by (auto simp: sends_def sent_head_def sent_body_def final_state_def)

lemma end_headers_sends:
  assumes "path s = Some rp" "wfile_head s = []"
  shows "sends (end_headers s)
           (if request_version s = ''HTTP/0.9'' then [] else headers_buffer s @ cors_block rp)
           (wfile_body s)"
  using assms by (simp add: end_headers_Some sends_def)

lemma do_OPTIONS_sends:
  assumes "path s = Some rp" "wfile_head s = []" "headers_buffer s = []"
  shows "sends (do_OPTIONS e s)
           (if request_version s = ''HTTP/0.9'' then [] else lib_head e 200 ''OK'' @ cors_block rp)
           (wfile_body s)"
  unfolding do_OPTIONS_def
  using end_headers_sends [of "send_response e s 200 None" rp] assms
  by (cases "request_version s = ''HTTP/0.9''") (simp_all add: send_response_buffer responses_simps)

lemma send_error_sends:
  assumes "path s = Some rp" "wfile_head s = []" "headers_buffer s = []"
    and "200 \<le> code" "code \<notin> {204, 205, 304}"
  shows "sends (send_error e s code (Some msg) x)
           (if request_version s = ''HTTP/0.9'' then []
            else lib_head e code msg
                 @ [HeaderLine ''Connection'' ''close'', HeaderLine ''Content-Type'' error_content_type,
                    HeaderLine ''Content-Length'' (str_nat (length (error_page e code msg x)))]
                 @ cors_block rp)
           (wfile_body s @ (if command s = Some ''HEAD'' then [] else error_page e code msg x))"
proof -
  let ?s3 = "send_header (send_header (send_header (send_response e s code (Some msg)) ''Connection'' ''close'')
               ''Content-Type'' error_content_type) ''Content-Length'' (str_nat (length (error_page e code msg x)))"
  from end_headers_sends [of ?s3 rp] assms
  obtain s4 where s4: "end_headers ?s3 = Inr s4"
     "wfile_head s4 = (if request_version s = ''HTTP/0.9'' then []
            else lib_head e code msg
                 @ [HeaderLine ''Connection'' ''close'', HeaderLine ''Content-Type'' error_content_type,
                    HeaderLine ''Content-Length'' (str_nat (length (error_page e code msg x)))]
                 @ cors_block rp)"
     "wfile_body s4 = wfile_body s"
    by (auto simp: sends_def send_response_buffer)
  have c: "command s4 = command s"
    using s4(1) assms(1) by (auto simp: end_headers_Some split: if_splits)
  show ?thesis
    unfolding send_error_def Let_def sends_def
    using assms(4,5) s4 c by auto
qed

lemma and_none_sends:
  "sends r h b \<Longrightarrow> \<exists>s. and_none r = Inr (None, s) \<and> wfile_head s = h \<and> wfile_body s = b"
  by (auto simp: sends_def and_none_def)

text \<open>The three ways \<open>send_head_file\<close> ends: 404, 304 and 200.\<close>

lemma send_head_file_404:
  assumes "path s = Some rp" "wfile_head s = []" "headers_buffer s = []"
    and "endswith p ''/'' \<or> open_rb e p = RaisedOSError"
  shows "\<exists>s'. send_head_file e s p = Inr (None, s') \<and>
           wfile_head s' = (if request_version s = ''HTTP/0.9'' then []
            else lib_head e 404 ''File not found''
                 @ [HeaderLine ''Connection'' ''close'', HeaderLine ''Content-Type'' error_content_type,
                    HeaderLine ''Content-Length'' (str_nat (length (error_page e 404 ''File not found'' None)))]
                 @ cors_block rp) \<and>
           wfile_body s' = wfile_body s @ (if command s = Some ''HEAD'' then [] else error_page e 404 ''File not found'' None)"
  using and_none_sends [OF send_error_sends [OF assms(1-3), of 404 e "''File not found''" None]] assms(4)
  by (auto simp: send_head_file_def Let_def)

lemma send_head_file_304:
  assumes "path s = Some rp" "wfile_head s = []" "headers_buffer s = []"
    and "\<not> endswith p ''/''" "open_rb e p = Opened f" "not_modified e s f"
  shows "\<exists>s'. send_head_file e s p = Inr (None, s') \<and>
           wfile_head s' = (if request_version s = ''HTTP/0.9'' then []
                            else lib_head e 304 ''Not Modified'' @ cors_block rp) \<and>
           wfile_body s' = wfile_body s"
proof -
  have "sends (end_headers (send_response e s 304 None))
          (if request_version s = ''HTTP/0.9'' then [] else lib_head e 304 ''Not Modified'' @ cors_block rp)
          (wfile_body s)"
    using end_headers_sends [of "send_response e s 304 None" rp] assms(1-3)
    by (cases "request_version s = ''HTTP/0.9''") (simp_all add: send_response_buffer responses_simps)
  from and_none_sends [OF this] assms(4-6) show ?thesis
    by (simp add: send_head_file_def Let_def)
qed

lemma send_head_file_200:
  assumes "path s = Some rp" "wfile_head s = []" "headers_buffer s = []"
    and "\<not> endswith p ''/''" "open_rb e p = Opened f" "\<not> not_modified e s f"
  shows "\<exists>s'. send_head_file e s p = Inr (Some (contents f), s') \<and>
           wfile_head s' = (if request_version s = ''HTTP/0.9'' then []
                            else lib_head e 200 ''OK''
                                 @ [HeaderLine ''Content-type'' (guess_type e p),
                                    HeaderLine ''Content-Length'' (str_nat (length (contents f))),
                                    HeaderLine ''Last-Modified'' (http_date e (mtime f))]
                                 @ cors_block rp) \<and>
           wfile_body s' = wfile_body s"
proof -
  let ?s4 = "send_header (send_header (send_header (send_response e s 200 None) ''Content-type'' (guess_type e p))
               ''Content-Length'' (str_nat (length (contents f)))) ''Last-Modified'' (http_date e (mtime f))"
  have "sends (end_headers ?s4)
          (if request_version s = ''HTTP/0.9'' then []
                            else lib_head e 200 ''OK''
                                 @ [HeaderLine ''Content-type'' (guess_type e p),
                                    HeaderLine ''Content-Length'' (str_nat (length (contents f))),
                                    HeaderLine ''Last-Modified'' (http_date e (mtime f))]
                                 @ cors_block rp)
          (wfile_body s)"
    using end_headers_sends [of ?s4 rp] assms(1-3)
    by (cases "request_version s = ''HTTP/0.9''") (simp_all add: send_response_buffer responses_simps)
  with assms(4-6) show ?thesis
    by (auto simp: send_head_file_def Let_def sends_def)
qed

lemma py_split_Nil: "py_split (strip_crlf []) = []"
  by (simp add: py_split_def strip_crlf_def)

lemma accepted_state:
  assumes "accepted e raw hb s1"
  shows "headers_buffer s1 = []" "wfile_head s1 = []" "wfile_body s1 = []"
    "\<exists>c. command s1 = Some c" "\<exists>t. path s1 = Some t" "raw \<noteq> []"
  using parse_request_True [of e new_handler raw hb s1] assms
  by (auto simp: accepted_def new_handler_def py_split_Nil)

lemma handle_accepted:
  assumes "accepted e raw hb s1" "command s1 = Some c"
  shows "handle e raw hb =
           (if ''do_'' @ c \<notin> set do_methods
            then send_error e s1 501 (Some (''Unsupported method ('' @ py_repr e c @ '')'')) None
            else call_method (''do_'' @ c) e s1)"
  using assms accepted_state(6) [OF assms(1)]
  by (simp add: accepted_def handle_def handle_one_request_def Let_def)

lemma accepted_3:
  assumes "py_split (strip_crlf raw) = [cmd, t, v]" "parse_version v = Some (mj, mn)" "mj < 2"
    "length raw \<le> 65536"
  shows "accepted e raw (Headers hs)
           \<lparr>command = Some cmd, path = Some (single_slash t), request_version = v, headers = hs,
            headers_buffer = [], wfile_head = [], wfile_body = []\<rparr>"
  using assms
  by (simp add: accepted_def parse_request_def Let_def check_version_def new_handler_def)

lemma accepted_2:
  assumes "py_split (strip_crlf raw) = [''GET'', t]" "length raw \<le> 65536"
  shows "accepted e raw (Headers hs)
           \<lparr>command = Some ''GET'', path = Some (single_slash t), request_version = ''HTTP/0.9'',
            headers = hs, headers_buffer = [], wfile_head = [], wfile_body = []\<rparr>"
  using assms
  by (simp add: accepted_def parse_request_def Let_def new_handler_def)

lemma do_GET_200:
  assumes "path s = Some rp" "wfile_head s = []" "headers_buffer s = []"
    and "\<not> isdir e (translate_path e rp)" "\<not> endswith (translate_path e rp) ''/''"
    and "open_rb e (translate_path e rp) = Opened f" "\<not> not_modified e s f"
  shows "sends (do_GET e s)
           (if request_version s = ''HTTP/0.9'' then []
            else lib_head e 200 ''OK''
                 @ [HeaderLine ''Content-type'' (guess_type e (translate_path e rp)),
                    HeaderLine ''Content-Length'' (str_nat (length (contents f))),
                    HeaderLine ''Last-Modified'' (http_date e (mtime f))]
                 @ cors_block rp)
           (wfile_body s @ contents f)"
  using send_head_file_200 [OF assms(1-3) assms(5-7)] assms(1,4)
  by (auto simp: do_GET_def send_head_def Let_def sends_def)



subsection \<open>The methods leave \<open>self.path\<close> alone\<close>

lemma end_headers_path:
  "end_headers s = Inr s' \<Longrightarrow> path s' = path s"
  "end_headers s = Inl (x, s') \<Longrightarrow> path s' = path s"
  by (auto simp: end_headers_def Let_def super_end_headers_def flush_headers_def
           split: option.splits if_splits)

lemma send_error_path:
  "send_error e s c m y = Inr s' \<Longrightarrow> path s' = path s"
  "send_error e s c m y = Inl (x, s') \<Longrightarrow> path s' = path s"
  by (auto simp: send_error_def Let_def split: sum.splits if_splits dest: end_headers_path)

lemma and_none_path:
  "and_none r = Inr (b, s') \<Longrightarrow> r = Inr s'"
  "and_none r = Inl (x, s') \<Longrightarrow> r = Inl (x, s')"
  by (auto simp: and_none_def split: sum.splits)

lemma and_false_path:
  "and_false r = Inr (b, s') \<Longrightarrow> r = Inr s'"
  "and_false r = Inl (x, s') \<Longrightarrow> r = Inl (x, s')"
  by (auto simp: and_false_def split: sum.splits)

lemma list_directory_path:
  "list_directory e s rp p = Inr (b, s') \<Longrightarrow> path s' = path s"
  "list_directory e s rp p = Inl (x, s') \<Longrightarrow> path s' = path s"
  by (auto simp: list_directory_def Let_def split: sum.splits option.splits
           dest!: and_none_path dest: end_headers_path send_error_path)

lemma send_head_file_path:
  "send_head_file e s p = Inr (b, s') \<Longrightarrow> path s' = path s"
  "send_head_file e s p = Inl (x, s') \<Longrightarrow> path s' = path s"
  by (auto simp: send_head_file_def Let_def split: sum.splits open_result.splits if_splits
           dest!: and_none_path dest: end_headers_path send_error_path)

lemma send_head_path:
  "send_head e s = Inr (b, s') \<Longrightarrow> path s' = path s"
  "send_head e s = Inl (x, s') \<Longrightarrow> path s' = path s"
  by (auto simp: send_head_def Let_def split: sum.splits option.splits if_splits
           dest!: and_none_path dest: end_headers_path send_head_file_path list_directory_path)

lemma call_method_path:
  "call_method m e s = Inr s' \<Longrightarrow> path s' = path s"
  "call_method m e s = Inl (x, s') \<Longrightarrow> path s' = path s"
  by (auto simp: call_method_def do_GET_def do_HEAD_def do_OPTIONS_def
           split: sum.splits option.splits if_splits prod.splits
           dest: end_headers_path send_head_path)

lemma check_version_path:
  "check_version e s v = Inr (b, s') \<Longrightarrow> path s' = path s"
  "check_version e s v = Inl (x, s') \<Longrightarrow> path s' = path s"
  by (auto simp: check_version_def split: option.splits if_splits
           dest!: and_false_path dest: send_error_path)

text \<open>Whatever \<open>parse_request\<close> does, \<open>self.path\<close> is unset or the target of the request line.\<close>

lemma lands_send_error:
  "path s = None \<or> path s = T \<Longrightarrow> lands T (and_false (send_error e s c m y))"
  by (cases "send_error e s c m y")
     (auto simp: lands_def and_false_def dest: send_error_path)

lemma lands_check_version: "path s = None \<Longrightarrow> lands T (check_version e s v)"
  by (cases "check_version e s v") (auto simp: lands_def dest: check_version_path)

lemma lands_Inr: "path s = None \<or> path s = T \<Longrightarrow> lands T (Inr (b, s))"
  by (simp add: lands_def)

lemma check_version_path_None:
  "path s = None \<Longrightarrow> check_version e s v = Inr (b, s1) \<Longrightarrow> path s1 = None"
  by (auto dest: check_version_path)

lemma parse_request_lands:
  assumes "path s0 = None"
  shows "lands (target_path raw) (parse_request e s0 raw hb)"
proof -
  let ?ws = "py_split (strip_crlf raw)"
  let ?s = "s0\<lparr>command := None, request_version := ''HTTP/0.9''\<rparr>"
  let ?r = "if 3 \<le> length ?ws then check_version e ?s (last ?ws) else Inr (True, ?s)"
  have p: "path ?s = None" using assms by simp
  show ?thesis
  proof (cases "?ws = []")
    case True
    then show ?thesis using p by (simp add: parse_request_def Let_def lands_def)
  next
    case ne: False
    show ?thesis
    proof (cases ?r)
      case (Inl a)
      obtain x s1 where a: "a = (x, s1)" by (cases a)
      with Inl have "path s1 = None"
        using p by (auto split: if_splits dest: check_version_path)
      with Inl a ne show ?thesis
        by (simp add: parse_request_def Let_def lands_def)
    next
      case (Inr b)
      obtain ok s1 where b: "b = (ok, s1)" by (cases b)
      with Inr have s1: "path s1 = None"
        using p by (auto split: if_splits dest: check_version_path)
      show ?thesis
      proof (cases ok)
        case False
        with Inr b ne s1 show ?thesis
          by (simp add: parse_request_def Let_def lands_def)
      next
        case True
        show ?thesis
        proof (cases "2 \<le> length ?ws \<and> length ?ws \<le> 3")
          case False
          with Inr b ne True lands_send_error [of s1 "target_path raw"] s1 show ?thesis
            by (simp add: parse_request_def Let_def)
        next
          case len: True
          then obtain cmd t rest where ws: "?ws = cmd # t # rest"
            by (cases ?ws; simp; (cases "tl ?ws"; simp))
          then have T: "target_path raw = Some (single_slash t)"
            by (simp add: target_path_def)
          let ?s2 = "s1\<lparr>command := Some cmd, path := Some (single_slash t)\<rparr>"
          have "lands (target_path raw) (and_false (send_error e s1 c m y))" for c m y
            using lands_send_error [of s1] s1 by simp
          moreover have "lands (target_path raw) (and_false (send_error e ?s2 c m y))" for c m y
            using lands_send_error [of ?s2 "target_path raw"] T by simp
          moreover have "lands (target_path raw) (Inr (True, ?s2\<lparr>headers := hs\<rparr>))" for hs
            using T by (simp add: lands_def)
          ultimately show ?thesis
            using Inr b ne True len ws
            by (simp add: parse_request_def Let_def split: header_block.splits)
        qed
      qed
    qed
  qed
qed

lemma handle_path:
  "path (final_state (handle e raw hb)) = None
   \<or> path (final_state (handle e raw hb)) = target_path raw"
proof -
  have n: "path new_handler = None" by (simp add: new_handler_def)
  note pl = parse_request_lands [OF n, of raw e hb]
  show ?thesis
  proof (cases "65536 < length raw")
    case True
    then show ?thesis
      by (cases "send_error e (new_handler\<lparr>request_version := [], command := Some []\<rparr>) 414 None None")
         (auto simp: handle_def handle_one_request_def final_state_def n dest: send_error_path)
  next
    case short: False
    show ?thesis
    proof (cases "raw = []")
      case True
      with short show ?thesis by (simp add: handle_def handle_one_request_def final_state_def n)
    next
      case ne: False
      show ?thesis
      proof (cases "parse_request e new_handler raw hb")
        case (Inl a)
        with short ne pl show ?thesis
          by (cases a) (auto simp: handle_def handle_one_request_def final_state_def lands_def)
      next
        case (Inr b)
        obtain ok s1 where b: "b = (ok, s1)" by (cases b)
        from pl Inr b have s1: "path s1 = None \<or> path s1 = target_path raw"
          by (simp add: lands_def)
        show ?thesis
        proof (cases ok)
          case False
          with short ne Inr b s1 show ?thesis
            by (simp add: handle_def handle_one_request_def final_state_def)
        next
          case True
          show ?thesis
          proof (cases "command s1")
            case None
            with short ne Inr b s1 True show ?thesis
              by (simp add: handle_def handle_one_request_def final_state_def)
          next
            case (Some c)
            have "path (final_state (send_error e s1 k m y)) = path s1" for k m y
              by (cases "send_error e s1 k m y") (auto simp: final_state_def dest: send_error_path)
            moreover have "path (final_state (call_method m e s1)) = path s1" for m
              by (cases "call_method m e s1") (auto simp: final_state_def dest: call_method_path)
            ultimately show ?thesis
              using short ne Inr b s1 True Some
              by (simp add: handle_def handle_one_request_def Let_def)
          qed
        qed
      qed
    qed
  qed
qed

subsection \<open>Reading the head that was sent\<close>

lemma header_fields_append: "header_fields (xs @ ys) = header_fields xs @ header_fields ys"
  by (induction xs rule: header_fields.induct) simp_all

lemma field_values_append: "field_values n (xs @ ys) = field_values n xs @ field_values n ys"
  by (simp add: field_values_def header_fields_append)

lemma field_values_Cons:
  "field_values n (HeaderLine k v # xs) = (if lower k = lower n then v # field_values n xs else field_values n xs)"
  "field_values n (StatusLine a b c # xs) = field_values n xs"
  "field_values n (BlankLine # xs) = field_values n xs"
  "field_values n [] = []"
  by (simp_all add: field_values_def)

lemma lib_no_field:
  "list_all lib_line pre \<Longrightarrow> lower n \<notin> set lib_keys \<Longrightarrow> field_values n pre = []"
  by (induction pre) (auto simp: lib_line_def field_values_Cons split: hline.splits)

lemma lib_no_forced:
  "list_all lib_line pre \<Longrightarrow> (''Content-Type'', ''application/javascript'') \<notin> set (header_fields pre)"
  by (induction pre rule: header_fields.induct) (auto simp: lib_line_def)

lemma header_fields_cors_block:
  "header_fields (cors_block p) =
     cors_headers @ (if endswith p ''.js'' then [(''Content-Type'', ''application/javascript'')] else [])"
  by (simp add: cors_block_def cors_headers_def)

lemma cors_block_values:
  "field_values ''Access-Control-Allow-Origin'' (cors_block p) = [''*'']"
  "field_values ''Access-Control-Allow-Methods'' (cors_block p) = [''GET, POST, OPTIONS'']"
  "field_values ''Access-Control-Allow-Headers'' (cors_block p) = [''Content-Type'']"
  "field_values ''Content-Type'' (cors_block p) = (if endswith p ''.js'' then [''application/javascript''] else [])"
  by (simp_all add: field_values_def header_fields_cors_block cors_headers_def lower_keys)

lemma cors_not_lib:
  "lower ''Access-Control-Allow-Origin'' \<notin> set lib_keys"
  "lower ''Access-Control-Allow-Methods'' \<notin> set lib_keys"
  "lower ''Access-Control-Allow-Headers'' \<notin> set lib_keys"
  by (simp_all add: lower_keys lib_keys_def)

lemma head_shape:
  assumes "sent_head (handle e raw hb) \<noteq> []"
  shows "\<exists>pre p. target_path raw = Some p \<and> list_all lib_line pre \<and> status_code pre \<noteq> None
           \<and> sent_head (handle e raw hb) = pre @ cors_block p"
proof -
  from handle_answered [of e raw hb] assms
  obtain pre p where p: "path (final_state (handle e raw hb)) = Some p"
    and pre: "list_all lib_line pre" "status_code pre \<noteq> None"
       "sent_head (handle e raw hb) = pre @ cors_block p"
    by (auto simp: answered_def shaped_def sent_head_def)
  from handle_path [of e raw hb] p have "target_path raw = Some p" by auto
  with pre show ?thesis by blast
qed

subsection \<open>What the handler sends for an accepted request\<close>

lemma handle_GET_200:
  assumes "accepted e raw hb s1" "command s1 = Some ''GET''" "path s1 = Some t"
    and "\<not> isdir e (translate_path e t)" "\<not> endswith (translate_path e t) ''/''"
    and "open_rb e (translate_path e t) = Opened f" "\<not> not_modified e s1 f"
  shows "sends (handle e raw hb)
           (if request_version s1 = ''HTTP/0.9'' then []
            else lib_head e 200 ''OK''
                 @ [HeaderLine ''Content-type'' (guess_type e (translate_path e t)),
                    HeaderLine ''Content-Length'' (str_nat (length (contents f))),
                    HeaderLine ''Last-Modified'' (http_date e (mtime f))]
                 @ cors_block t)
           (contents f)"
  using do_GET_200 [OF assms(3) accepted_state(2,1) [OF assms(1)] assms(4-7)]
    accepted_state(3) [OF assms(1)]
  by (simp add: handle_accepted [OF assms(1,2)] do_methods_def call_method_def)



lemma handle_OPTIONS:
  assumes "accepted e raw hb s1" "command s1 = Some ''OPTIONS''" "path s1 = Some t"
  shows "sends (handle e raw hb)
           (if request_version s1 = ''HTTP/0.9'' then [] else lib_head e 200 ''OK'' @ cors_block t)
           []"
  using do_OPTIONS_sends [OF assms(3) accepted_state(2,1) [OF assms(1)], of e]
    accepted_state(3) [OF assms(1)]
  by (simp add: handle_accepted [OF assms(1,2)] do_methods_def call_method_def)




lemma status_code_Nil: "status_code [] = None"
  by (simp add: status_code_def)

lemma status_lib_head: "status_code (lib_head e c m @ xs) = Some c"
  by (simp add: lib_head_def status_code_def)

lemma lib_head_values:
  "field_values ''Content-Type'' (lib_head e c m) = []"
  by (simp add: lib_head_def field_values_Cons lower_keys)

subsection \<open>Which name a target reaches\<close>

text \<open>
  A target that is a slash and one plain name (no slash, query, fragment or escape in it,
  not \<open>.\<close> or \<open>..\<close>, not ending in white space) is translated to that name in the
  serving directory.
\<close>

lemma split_on_none: "sep \<notin> set s \<Longrightarrow> split_on sep s = [s]"
  by (induction s) auto

lemma before_first_none: "sep \<notin> set s \<Longrightarrow> before_first sep s = s"
  by (auto simp: before_first_def takeWhile_eq_all_conv)

lemma rstrip_last: "s \<noteq> [] \<Longrightarrow> \<not> isspace (last s) \<Longrightarrow> rstrip s = s"
  by (cases s rule: rev_cases) (simp_all add: rstrip_def)

lemma endswith_slash: "endswith s ''/'' \<longleftrightarrow> s \<noteq> [] \<and> last s = CHR ''/''"
  by (cases s rule: rev_cases) (simp_all add: endswith_def)

lemma translate_path_name:
  assumes "name \<noteq> []" "name \<noteq> ''.''" "name \<noteq> ''..''"
    and "CHR ''/'' \<notin> set name" "CHR ''?'' \<notin> set name" "CHR ''#'' \<notin> set name"
    and "CHR ''%'' \<notin> set name" "\<not> isspace (last name)"
  shows "translate_path e (CHR ''/'' # name) = path_join (directory e) name"
proof -
  let ?p = "CHR ''/'' # name"
  have p1: "before_first CHR ''#'' (before_first CHR ''?'' ?p) = ?p"
    using assms(5,6) by (simp add: before_first_none)
  have l: "last ?p = last name" using assms(1) by simp
  have rs: "rstrip ?p = ?p" using assms(8) l by (simp add: rstrip_last)
  have ts: "\<not> endswith (rstrip ?p) ''/''"
    using assms(1,4) l unfolding rs endswith_slash by (metis last_in_set)
  have uq: "unquote e ?p = ?p" using assms(7) by (simp add: unquote_def)
  have sp: "split_on CHR ''/'' ?p = [[], name]" using assms(4) by (simp add: split_on_none)
  have hd: "\<not> startswith name ''/''"
    using assms(1,4) by (cases name) (auto simp: startswith_def)
  have nc: "norm_comps True [] (split_on CHR ''/'' ?p) = [name]"
    unfolding sp using assms(1-3) by simp
  have st: "startswith ?p ''/''" "\<not> startswith ?p ''//''"
    using hd by (simp_all add: startswith_def)
  have np: "normpath ?p = ?p"
    by (simp add: normpath_def Let_def nc st join_slash_def del: split_on.simps)
  have ws: "filter (\<lambda>w. w \<noteq> []) (split_on CHR ''/'' ?p) = [name]"
    unfolding sp using assms(1) by simp
  show ?thesis
    using assms(2-4) ts
    by (simp add: translate_path_def Let_def p1 uq np ws del: split_on.simps)
qed


lemma translate_path_under_root:
  assumes "name \<noteq> []" "name \<noteq> ''.''" "name \<noteq> ''..''"
    and "CHR ''/'' \<notin> set name" "CHR ''?'' \<notin> set name" "CHR ''#'' \<notin> set name"
    and "CHR ''%'' \<notin> set name" "\<not> isspace (last name)"
    and "cwd_tail e \<noteq> []" "last (cwd_tail e) \<noteq> CHR ''/''"
  shows "translate_path e (CHR ''/'' # name) = directory e @ CHR ''/'' # name"
proof -
  have "\<not> startswith name ''/''"
    using assms(1,4) by (cases name) (auto simp: startswith_def)
  moreover have "\<not> endswith (directory e) ''/''"
    using assms(9,10) by (simp add: endswith_slash directory_def)
  ultimately show ?thesis
    using translate_path_name [OF assms(1-8), of e]
    by (simp add: path_join_def directory_def)
qed

section \<open>Evaluations on the example host\<close>

lemma demo_split:
  "py_split (strip_crlf (''GET /index.html'' @ crlf)) = [''GET'', ''/index.html'']"
  "py_split (strip_crlf (''GET /index.html HTTP/1.1'' @ crlf)) = [''GET'', ''/index.html'', ''HTTP/1.1'']"
  "py_split (strip_crlf (''GET /notes.txt?v=.js HTTP/1.1'' @ crlf)) = [''GET'', ''/notes.txt?v=.js'', ''HTTP/1.1'']"
  "py_split (strip_crlf (''GET /app.js HTTP/1.1'' @ crlf)) = [''GET'', ''/app.js'', ''HTTP/1.1'']"
  "py_split (strip_crlf (''GET /app.js?v=1 HTTP/1.1'' @ crlf)) = [''GET'', ''/app.js?v=1'', ''HTTP/1.1'']"
  "py_split (strip_crlf (''GET /app.js'' @ crlf)) = [''GET'', ''/app.js'']"
  "py_split (strip_crlf (''OPTIONS /anything HTTP/0.9'' @ crlf)) = [''OPTIONS'', ''/anything'', ''HTTP/0.9'']"
  "py_split (strip_crlf (''OPTIONS /anything HTTP/1.1'' @ crlf)) = [''OPTIONS'', ''/anything'', ''HTTP/1.1'']"
  "py_split (strip_crlf (''GET /missing.txt'' @ crlf)) = [''GET'', ''/missing.txt'']"
  "py_split (strip_crlf (''GET /missing.txt HTTP/1.1'' @ crlf)) = [''GET'', ''/missing.txt'', ''HTTP/1.1'']"
  "py_split (strip_crlf (''POST /index.html HTTP/1.1'' @ crlf)) = [''POST'', ''/index.html'', ''HTTP/1.1'']"
  "py_split (strip_crlf (''GET /style.css HTTP/1.1'' @ crlf)) = [''GET'', ''/style.css'', ''HTTP/1.1'']"
  "py_split (strip_crlf (''GET /style.css'' @ crlf)) = [''GET'', ''/style.css'']"
  unfolding crlf_def by code_simp+

lemma demo_version:
  "parse_version ''HTTP/1.1'' = Some (1, 1)" "parse_version ''HTTP/0.9'' = Some (0, 9)"
  by code_simp+

lemma demo_target:
  "single_slash ''/index.html'' = ''/index.html''"
  "single_slash ''/notes.txt?v=.js'' = ''/notes.txt?v=.js''"
  "single_slash ''/app.js'' = ''/app.js''"
  "single_slash ''/app.js?v=1'' = ''/app.js?v=1''"
  "single_slash ''/anything'' = ''/anything''"
  "single_slash ''/missing.txt'' = ''/missing.txt''"
  "single_slash ''/style.css'' = ''/style.css''"
  by code_simp+

lemma demo_translate:
  "translate_path demo_env ''/index.html'' = ''/srv/index.html''"
  "translate_path demo_env ''/notes.txt?v=.js'' = ''/srv/notes.txt''"
  "translate_path demo_env ''/app.js'' = ''/srv/app.js''"
  "translate_path demo_env ''/app.js?v=1'' = ''/srv/app.js''"
  "translate_path demo_env ''/missing.txt'' = ''/srv/missing.txt''"
  "translate_path demo_env ''/style.css'' = ''/srv/style.css''"
  unfolding demo_env_def by code_simp+

lemma demo_files:
  "open_rb demo_env ''/srv/index.html'' = Opened \<lparr>contents = ''<html></html>'', mtime = 1000\<rparr>"
  "open_rb demo_env ''/srv/notes.txt'' = Opened \<lparr>contents = ''hello'', mtime = 1000\<rparr>"
  "open_rb demo_env ''/srv/app.js'' = Opened \<lparr>contents = ''let x = 1;'', mtime = 1000\<rparr>"
  "open_rb demo_env ''/srv/style.css'' = Opened \<lparr>contents = ''body {}'', mtime = 1000\<rparr>"
  "open_rb demo_env ''/srv/missing.txt'' = RaisedOSError"
  "\<not> isdir demo_env ''/srv/index.html''" "\<not> isdir demo_env ''/srv/notes.txt''"
  "\<not> isdir demo_env ''/srv/app.js''" "\<not> isdir demo_env ''/srv/style.css''"
  "\<not> isdir demo_env ''/srv/missing.txt''"
  "\<not> endswith ''/srv/index.html'' ''/''" "\<not> endswith ''/srv/notes.txt'' ''/''"
  "\<not> endswith ''/srv/app.js'' ''/''" "\<not> endswith ''/srv/style.css'' ''/''"
  unfolding demo_env_def by code_simp+

lemma demo_types:
  "guess_type demo_env ''/srv/index.html'' = ''text/html''"
  "guess_type demo_env ''/srv/notes.txt'' = ''text/plain''"
  "guess_type demo_env ''/srv/app.js'' = ''application/javascript''"
  "guess_type demo_env ''/srv/style.css'' = ''text/css''"
  unfolding demo_env_def by code_simp+

lemma demo_ends:
  "\<not> endswith ''/index.html'' ''.js''" "endswith ''/notes.txt?v=.js'' ''.js''"
  "endswith ''/app.js'' ''.js''" "\<not> endswith ''/app.js?v=1'' ''.js''"
  "\<not> endswith ''/anything'' ''.js''" "\<not> endswith ''/missing.txt'' ''.js''"
  "\<not> endswith ''/style.css'' ''.js''"
  by code_simp+

section \<open>The claims\<close>

lemma no_conditions: "headers s = [] \<Longrightarrow> \<not> not_modified e s f"
  by (simp add: not_modified_def get_header_def)

lemma demo_short: "length l \<le> 100 \<Longrightarrow> length (l @ crlf) \<le> 65536"
  by (simp add: crlf_def)

lemma demo_get_index_09:
  "sends (handle demo_env (''GET /index.html'' @ crlf) (Headers [])) [] ''<html></html>''"
proof -
  have a: "accepted demo_env (''GET /index.html'' @ crlf) (Headers [])
             \<lparr>command = Some ''GET'', path = Some ''/index.html'', request_version = ''HTTP/0.9'',
              headers = [], headers_buffer = [], wfile_head = [], wfile_body = []\<rparr>"
    using accepted_2 [OF demo_split(1) demo_short, of demo_env "[]"] by (simp add: demo_target)
  from handle_GET_200 [OF a, of "''/index.html''" "\<lparr>contents = ''<html></html>'', mtime = 1000\<rparr>"]
  show ?thesis
    by (simp add: demo_translate demo_files no_conditions)
qed

lemma demo_get_index_11:
  "sends (handle demo_env (''GET /index.html HTTP/1.1'' @ crlf) (Headers []))
     (lib_head demo_env 200 ''OK''
      @ [HeaderLine ''Content-type'' ''text/html'', HeaderLine ''Content-Length'' (str_nat (length ''<html></html>'')),
         HeaderLine ''Last-Modified'' ''Thu, 01 Jan 1970 00:16:40 GMT'']
      @ cors_block ''/index.html'')
     ''<html></html>''"
proof -
  have a: "accepted demo_env (''GET /index.html HTTP/1.1'' @ crlf) (Headers [])
             \<lparr>command = Some ''GET'', path = Some ''/index.html'', request_version = ''HTTP/1.1'',
              headers = [], headers_buffer = [], wfile_head = [], wfile_body = []\<rparr>"
    using accepted_3 [OF demo_split(2) demo_version(1) _ demo_short, of demo_env "[]"]
    by (simp add: demo_target)
  have d: "http_date demo_env 1000 = ''Thu, 01 Jan 1970 00:16:40 GMT''"
    unfolding demo_env_def by code_simp
  from handle_GET_200 [OF a, of "''/index.html''" "\<lparr>contents = ''<html></html>'', mtime = 1000\<rparr>"]
  show ?thesis
    by (simp add: demo_translate demo_files demo_types no_conditions d)
qed

text \<open>
  C1 (as amended).  Every response that has a head -- a status line and header fields --
  carries each of the three CORS headers once, with the value \<open>server.py\<close> gives it,
  whatever the method, the path and the status.
\<close>

theorem cors_on_every_head:
  assumes "sent_head (handle e raw hb) \<noteq> []"
  shows "field_values ''Access-Control-Allow-Origin'' (sent_head (handle e raw hb)) = [''*'']
       \<and> field_values ''Access-Control-Allow-Methods'' (sent_head (handle e raw hb)) = [''GET, POST, OPTIONS'']
       \<and> field_values ''Access-Control-Allow-Headers'' (sent_head (handle e raw hb)) = [''Content-Type'']"
proof -
  from head_shape [OF assms] obtain pre p where
    "list_all lib_line pre" "sent_head (handle e raw hb) = pre @ cors_block p" by blast
  then show ?thesis
    by (simp add: field_values_append lib_no_field cors_not_lib cors_block_values)
qed

theorem cors_on_every_head_witness:
  "sent_head (handle demo_env (''GET /index.html HTTP/1.1'' @ crlf) (Headers [])) \<noteq> []
   \<and> field_values ''Access-Control-Allow-Origin''
         (sent_head (handle demo_env (''GET /index.html HTTP/1.1'' @ crlf) (Headers []))) = [''*'']
   \<and> field_values ''Access-Control-Allow-Methods''
         (sent_head (handle demo_env (''GET /index.html HTTP/1.1'' @ crlf) (Headers []))) = [''GET, POST, OPTIONS'']
   \<and> field_values ''Access-Control-Allow-Headers''
         (sent_head (handle demo_env (''GET /index.html HTTP/1.1'' @ crlf) (Headers []))) = [''Content-Type'']"
proof -
  have h: "sent_head (handle demo_env (''GET /index.html HTTP/1.1'' @ crlf) (Headers [])) \<noteq> []"
    using sends_sent [OF demo_get_index_11] by (simp add: lib_head_def)
  show ?thesis
    using h cors_on_every_head [OF h] by simp
qed

text \<open>
  C1 as stated fails: a request line without a version (HTTP/0.9) is answered with the
  bytes of the file and nothing else, so the response has no CORS header.
\<close>

theorem cors_missing_on_http09:
  "sent_body (handle demo_env (''GET /index.html'' @ crlf) (Headers [])) = ''<html></html>''
   \<and> field_values ''Access-Control-Allow-Origin''
         (sent_head (handle demo_env (''GET /index.html'' @ crlf) (Headers []))) \<noteq> [''*'']"
  using sends_sent [OF demo_get_index_09] by (simp add: field_values_Cons)

lemma lib_head_lib: "list_all lib_line (lib_head e c m)"
  by (simp add: lib_head_def lib_line_def lib_keys_def lower_keys)

lemma cors_values:
  assumes "list_all lib_line pre"
  shows "field_values ''Access-Control-Allow-Origin'' (pre @ cors_block p) = [''*'']"
    "field_values ''Access-Control-Allow-Methods'' (pre @ cors_block p) = [''GET, POST, OPTIONS'']"
    "field_values ''Access-Control-Allow-Headers'' (pre @ cors_block p) = [''Content-Type'']"
  using assms by (simp_all add: field_values_append lib_no_field cors_not_lib cors_block_values)

lemma accepted_env: "accepted e raw hb s1 \<Longrightarrow> accepted e' raw hb s1"
proof -
  assume a: "accepted e raw hb s1"
  then have l: "length raw \<le> 65536" and p: "parse_request e new_handler raw hb = Inr (True, s1)"
    by (simp_all add: accepted_def)
  from parse_request_True [OF p] obtain cmd t rest hs where
    ws: "py_split (strip_crlf raw) = cmd # t # rest" and hb: "hb = Headers hs"
    and c: "rest = [] \<and> cmd = ''GET'' \<or> (\<exists>v mj mn. rest = [v] \<and> parse_version v = Some (mj, mn) \<and> mj < 2)"
    and s1: "s1 = new_handler\<lparr>command := Some cmd, path := Some (single_slash t),
                      request_version := (if rest = [] then ''HTTP/0.9'' else last rest),
                      headers := hs\<rparr>"
    by blast
  from c show ?thesis
  proof
    assume "rest = [] \<and> cmd = ''GET''"
    with ws have "py_split (strip_crlf raw) = [''GET'', t]" by simp
    from accepted_2 [OF this l, of e' hs] s1 hb \<open>rest = [] \<and> cmd = ''GET''\<close> show ?thesis
      by (simp add: new_handler_def)
  next
    assume "\<exists>v mj mn. rest = [v] \<and> parse_version v = Some (mj, mn) \<and> mj < 2"
    then obtain v mj mn where v: "rest = [v]" "parse_version v = Some (mj, mn)" "mj < 2" by blast
    with ws have "py_split (strip_crlf raw) = [cmd, t, v]" by simp
    from accepted_3 [OF this v(2,3) l, of e' hs] s1 hb v(1) show ?thesis
      by (simp add: new_handler_def)
  qed
qed

lemma lib_head_fs:
  "lib_head (e\<lparr>cwd_tail := c, unquote_escapes := u, isdir := d, isfile := f, listdir := l, open_rb := ob\<rparr>) n m
     = lib_head e n m"
  by (simp add: lib_head_def)

text \<open>
  C3 (as amended).  An \<open>OPTIONS\<close> request that the parser accepts and whose version
  is not \<open>HTTP/0.9\<close> is answered with status 200 and no body; the head is the status
  line, \<open>Server\<close>, \<open>Date\<close> and the block \<open>end_headers\<close> injects, so the three CORS
  headers are there; and the reply is the same whatever the serving root is, however
  percent escapes decode and whatever the file system holds: no path is resolved and the
  file system is not looked at.
\<close>

theorem options_reply:
  assumes "accepted e raw hb s1" "command s1 = Some ''OPTIONS''" "path s1 = Some t"
    and "request_version s1 \<noteq> ''HTTP/0.9''"
  shows "status_code (sent_head (handle e raw hb)) = Some 200
       \<and> sent_body (handle e raw hb) = []
       \<and> sent_head (handle e raw hb) = lib_head e 200 ''OK'' @ cors_block t
       \<and> field_values ''Access-Control-Allow-Origin'' (sent_head (handle e raw hb)) = [''*'']
       \<and> field_values ''Access-Control-Allow-Methods'' (sent_head (handle e raw hb)) = [''GET, POST, OPTIONS'']
       \<and> field_values ''Access-Control-Allow-Headers'' (sent_head (handle e raw hb)) = [''Content-Type'']
       \<and> reply (e\<lparr>cwd_tail := c, unquote_escapes := u, isdir := d, isfile := f, listdir := l,
                   open_rb := ob\<rparr>) raw hb = reply e raw hb"
proof -
  let ?e = "e\<lparr>cwd_tail := c, unquote_escapes := u, isdir := d, isfile := f, listdir := l, open_rb := ob\<rparr>"
  from sends_sent [OF handle_OPTIONS [OF assms(1-3)]] assms(4)
  have h: "sent_head (handle e raw hb) = lib_head e 200 ''OK'' @ cors_block t"
    and b: "sent_body (handle e raw hb) = []" by simp_all
  from sends_sent [OF handle_OPTIONS [OF accepted_env [OF assms(1), of ?e] assms(2,3)]] assms(4)
  have "sent_head (handle ?e raw hb) = lib_head e 200 ''OK'' @ cors_block t"
    and "sent_body (handle ?e raw hb) = []" by (simp_all add: lib_head_fs)
  with h b show ?thesis
    by (simp add: reply_def status_lib_head cors_values lib_head_lib)
qed

lemma demo_accepted:
  "accepted demo_env (''GET /index.html HTTP/1.1'' @ crlf) (Headers hs)
     \<lparr>command = Some ''GET'', path = Some ''/index.html'', request_version = ''HTTP/1.1'',
      headers = hs, headers_buffer = [], wfile_head = [], wfile_body = []\<rparr>"
  "accepted demo_env (''GET /notes.txt?v=.js HTTP/1.1'' @ crlf) (Headers hs)
     \<lparr>command = Some ''GET'', path = Some ''/notes.txt?v=.js'', request_version = ''HTTP/1.1'',
      headers = hs, headers_buffer = [], wfile_head = [], wfile_body = []\<rparr>"
  "accepted demo_env (''GET /app.js HTTP/1.1'' @ crlf) (Headers hs)
     \<lparr>command = Some ''GET'', path = Some ''/app.js'', request_version = ''HTTP/1.1'',
      headers = hs, headers_buffer = [], wfile_head = [], wfile_body = []\<rparr>"
  "accepted demo_env (''GET /app.js?v=1 HTTP/1.1'' @ crlf) (Headers hs)
     \<lparr>command = Some ''GET'', path = Some ''/app.js?v=1'', request_version = ''HTTP/1.1'',
      headers = hs, headers_buffer = [], wfile_head = [], wfile_body = []\<rparr>"
  "accepted demo_env (''OPTIONS /anything HTTP/0.9'' @ crlf) (Headers hs)
     \<lparr>command = Some ''OPTIONS'', path = Some ''/anything'', request_version = ''HTTP/0.9'',
      headers = hs, headers_buffer = [], wfile_head = [], wfile_body = []\<rparr>"
  "accepted demo_env (''OPTIONS /anything HTTP/1.1'' @ crlf) (Headers hs)
     \<lparr>command = Some ''OPTIONS'', path = Some ''/anything'', request_version = ''HTTP/1.1'',
      headers = hs, headers_buffer = [], wfile_head = [], wfile_body = []\<rparr>"
  "accepted demo_env (''GET /missing.txt HTTP/1.1'' @ crlf) (Headers hs)
     \<lparr>command = Some ''GET'', path = Some ''/missing.txt'', request_version = ''HTTP/1.1'',
      headers = hs, headers_buffer = [], wfile_head = [], wfile_body = []\<rparr>"
  "accepted demo_env (''POST /index.html HTTP/1.1'' @ crlf) (Headers hs)
     \<lparr>command = Some ''POST'', path = Some ''/index.html'', request_version = ''HTTP/1.1'',
      headers = hs, headers_buffer = [], wfile_head = [], wfile_body = []\<rparr>"
  "accepted demo_env (''GET /style.css HTTP/1.1'' @ crlf) (Headers hs)
     \<lparr>command = Some ''GET'', path = Some ''/style.css'', request_version = ''HTTP/1.1'',
      headers = hs, headers_buffer = [], wfile_head = [], wfile_body = []\<rparr>"
  using accepted_3 [OF demo_split(2) demo_version(1) _ demo_short, of demo_env hs]
    accepted_3 [OF demo_split(3) demo_version(1) _ demo_short, of demo_env hs]
    accepted_3 [OF demo_split(4) demo_version(1) _ demo_short, of demo_env hs]
    accepted_3 [OF demo_split(5) demo_version(1) _ demo_short, of demo_env hs]
    accepted_3 [OF demo_split(7) demo_version(2) _ demo_short, of demo_env hs]
    accepted_3 [OF demo_split(8) demo_version(1) _ demo_short, of demo_env hs]
    accepted_3 [OF demo_split(10) demo_version(1) _ demo_short, of demo_env hs]
    accepted_3 [OF demo_split(11) demo_version(1) _ demo_short, of demo_env hs]
    accepted_3 [OF demo_split(12) demo_version(1) _ demo_short, of demo_env hs]
  by (simp_all add: demo_target)

lemma demo_accepted_09:
  "accepted demo_env (''GET /app.js'' @ crlf) (Headers hs)
     \<lparr>command = Some ''GET'', path = Some ''/app.js'', request_version = ''HTTP/0.9'',
      headers = hs, headers_buffer = [], wfile_head = [], wfile_body = []\<rparr>"
  "accepted demo_env (''GET /missing.txt'' @ crlf) (Headers hs)
     \<lparr>command = Some ''GET'', path = Some ''/missing.txt'', request_version = ''HTTP/0.9'',
      headers = hs, headers_buffer = [], wfile_head = [], wfile_body = []\<rparr>"
  "accepted demo_env (''GET /style.css'' @ crlf) (Headers hs)
     \<lparr>command = Some ''GET'', path = Some ''/style.css'', request_version = ''HTTP/0.9'',
      headers = hs, headers_buffer = [], wfile_head = [], wfile_body = []\<rparr>"
  using accepted_2 [OF demo_split(6) demo_short, of demo_env hs]
    accepted_2 [OF demo_split(9) demo_short, of demo_env hs]
    accepted_2 [OF demo_split(13) demo_short, of demo_env hs]
  by (simp_all add: demo_target)




theorem options_reply_witness:
  "status_code (sent_head (handle demo_env (''OPTIONS /anything HTTP/1.1'' @ crlf) (Headers []))) = Some 200
   \<and> sent_body (handle demo_env (''OPTIONS /anything HTTP/1.1'' @ crlf) (Headers [])) = []
   \<and> field_values ''Access-Control-Allow-Origin''
         (sent_head (handle demo_env (''OPTIONS /anything HTTP/1.1'' @ crlf) (Headers []))) = [''*'']
   \<and> reply (demo_env\<lparr>cwd_tail := ''tmp'', unquote_escapes := (\<lambda>s. []), isdir := (\<lambda>p. True),
                       isfile := (\<lambda>p. False), listdir := (\<lambda>p. None), open_rb := (\<lambda>p. RaisedOSError)\<rparr>)
         (''OPTIONS /anything HTTP/1.1'' @ crlf) (Headers [])
       = reply demo_env (''OPTIONS /anything HTTP/1.1'' @ crlf) (Headers [])"
proof -
  let ?s1 = "\<lparr>command = Some ''OPTIONS'', path = Some ''/anything'', request_version = ''HTTP/1.1'',
      headers = [], headers_buffer = [], wfile_head = [], wfile_body = []\<rparr>"
  have c: "command ?s1 = Some ''OPTIONS''" "path ?s1 = Some ''/anything''"
    "request_version ?s1 \<noteq> ''HTTP/0.9''" by simp_all
  from options_reply [where c = "''tmp''" and u = "\<lambda>s. []" and d = "\<lambda>p. True" and f = "\<lambda>p. False"
      and l = "\<lambda>p. None" and ob = "\<lambda>p. RaisedOSError", OF demo_accepted(6) [of "[]"] c]
  show ?thesis by blast
qed

text \<open>
  C3 as stated fails: \<open>OPTIONS /anything HTTP/0.9\<close> passes the parser (the version
  check accepts 0.9 and the method is only compared with \<open>GET\<close> when the line has two
  words), and the reply is empty: no status line, no header.
\<close>

theorem options_http09_no_status:
  "status_code (sent_head (handle demo_env (''OPTIONS /anything HTTP/0.9'' @ crlf) (Headers []))) \<noteq> Some 200
   \<and> field_values ''Access-Control-Allow-Origin''
         (sent_head (handle demo_env (''OPTIONS /anything HTTP/0.9'' @ crlf) (Headers []))) = []"
  using sends_sent [OF handle_OPTIONS [where t = "''/anything''", OF demo_accepted(5) [of "[]"]]]
  by (simp add: status_code_def field_values_Cons)






lemma serve_forever_interrupted:
  "Interrupt \<notin> set evs \<Longrightarrow> serve_forever e (evs @ Interrupt # later) rs = (rs @ map (answer e) evs, True)"
proof (induction evs arbitrary: rs)
  case Nil
  then show ?case by simp
next
  case (Cons ev evs)
  then show ?case by (cases ev) (simp_all add: answer_def)
qed





text \<open>
  C8.  When the interrupt arrives while the server is serving, the connections after it
  are not answered, the two start-up lines are followed by the notice, the socket is
  closed and the exit code is 0.
\<close>

theorem interrupt_is_clean_shutdown:
  assumes "Interrupt \<notin> set before"
  shows "replies (main host True (before @ Interrupt # later)) = map (answer (server_env host)) before
       \<and> stdout (main host True (before @ Interrupt # later))
           = [''Starting server at http://localhost:8000'',
              ''Serving files from: '' @ directory host,
              CHR 0x0A # ''Server stopped.'']
       \<and> sock (main host True (before @ Interrupt # later)) = Closed
       \<and> exit_code (main host True (before @ Interrupt # later)) = Some 0"
proof -
  have p: "str_nat PORT = ''8000''" by (simp add: PORT_def str_nat.simps)
  have d: "directory (server_env host) = directory host"
    by (simp add: directory_def server_env_def)
  from serve_forever_interrupted [OF assms, of "server_env host" later "[]"]
  show ?thesis
    by (simp add: main_def Let_def p d server_close_def)
qed

theorem interrupt_is_clean_shutdown_witness:
  "replies (main demo_host True
      [Connection (''GET /index.html HTTP/1.1'' @ crlf) (Headers []), Interrupt,
       Connection (''GET /app.js HTTP/1.1'' @ crlf) (Headers [])])
     = [reply demo_env (''GET /index.html HTTP/1.1'' @ crlf) (Headers [])]
   \<and> stdout (main demo_host True
      [Connection (''GET /index.html HTTP/1.1'' @ crlf) (Headers []), Interrupt,
       Connection (''GET /app.js HTTP/1.1'' @ crlf) (Headers [])])
     = [''Starting server at http://localhost:8000'', ''Serving files from: /srv'',
        CHR 0x0A # ''Server stopped.'']
   \<and> sock (main demo_host True
      [Connection (''GET /index.html HTTP/1.1'' @ crlf) (Headers []), Interrupt,
       Connection (''GET /app.js HTTP/1.1'' @ crlf) (Headers [])]) = Closed
   \<and> exit_code (main demo_host True
      [Connection (''GET /index.html HTTP/1.1'' @ crlf) (Headers []), Interrupt,
       Connection (''GET /app.js HTTP/1.1'' @ crlf) (Headers [])]) = Some 0"
proof -
  let ?before = "[Connection (''GET /index.html HTTP/1.1'' @ crlf) (Headers [])]"
  have b: "Interrupt \<notin> set ?before" by simp
  have d: "directory demo_host = ''/srv''" by (simp add: directory_def demo_host_def)
  from interrupt_is_clean_shutdown [OF b, of demo_host
      "[Connection (''GET /app.js HTTP/1.1'' @ crlf) (Headers [])]"]
  show ?thesis by (simp add: answer_def demo_env_def d)
qed




text \<open>The raw target and what \<open>end_headers\<close> tests end in \<open>.js\<close> together.\<close>

lemma target_path_request_target: "target_path raw = map_option single_slash (request_target raw)"
  by (simp add: target_path_def request_target_def split: list.splits)

lemma endswith_iff: "endswith s suf \<longleftrightarrow> (\<exists>pre. s = pre @ suf)"
proof
  assume "endswith s suf"
  then have "s = take (length s - length suf) s @ suf"
    by (metis append_take_drop_id endswith_def)
  then show "\<exists>pre. s = pre @ suf" ..
next
  assume "\<exists>pre. s = pre @ suf"
  then show "endswith s suf" by (auto simp: endswith_def)
qed

lemma endswith_single_slash: "endswith (single_slash t) ''.js'' = endswith t ''.js''"
proof (cases "startswith t ''//''")
  case False
  then show ?thesis by (simp add: single_slash_def)
next
  case True
  let ?sl = "\<lambda>c. c = CHR ''/''"
  have s: "single_slash t = CHR ''/'' # dropWhile ?sl t" using True by (simp add: single_slash_def)
  show ?thesis
  proof
    assume "endswith (single_slash t) ''.js''"
    then obtain pre where p: "CHR ''/'' # dropWhile ?sl t = pre @ ''.js''"
      unfolding s endswith_iff by blast
    then obtain pre' where "pre = CHR ''/'' # pre'" by (cases pre) auto
    with p have "dropWhile ?sl t = pre' @ ''.js''" by simp
    then have "t = (takeWhile ?sl t @ pre') @ ''.js''"
      by (metis append.assoc takeWhile_dropWhile_id)
    then show "endswith t ''.js''" unfolding endswith_iff by blast
  next
    assume "endswith t ''.js''"
    then obtain pre where p: "t = pre @ ''.js''" unfolding endswith_iff by blast
    have "dropWhile ?sl (pre @ ''.js'') = dropWhile ?sl pre @ ''.js''"
      by (induction pre) auto
    with p have "CHR ''/'' # dropWhile ?sl t = (CHR ''/'' # dropWhile ?sl pre) @ ''.js''" by simp
    then show "endswith (single_slash t) ''.js''" unfolding s endswith_iff by blast
  qed
qed

lemma head_of_target:
  assumes "sent_head (handle e raw hb) \<noteq> []"
  shows "\<exists>pre t. request_target raw = Some t \<and> list_all lib_line pre \<and> status_code pre \<noteq> None
           \<and> sent_head (handle e raw hb) = pre @ cors_block (single_slash t)"
  using head_shape [OF assms] by (auto simp: target_path_request_target)

lemma forced_in_block:
  "list_all lib_line pre \<Longrightarrow>
   ((''Content-Type'', ''application/javascript'') \<in> set (header_fields (pre @ cors_block p)))
     = endswith p ''.js''"
  using lib_no_forced [of pre]
  by (auto simp: header_fields_append header_fields_cors_block cors_headers_def)

text \<open>
  C9 (as amended).  Whether the forced field is in a head that is sent is decided by the
  raw target of the request line, query string included: it is there exactly when that
  string ends in \<open>.js\<close>, whatever the method and the status.
\<close>

theorem forced_type_iff_raw_target_ends_js:
  assumes "sent_head (handle e raw hb) \<noteq> []"
  shows "\<exists>t. request_target raw = Some t
           \<and> ((''Content-Type'', ''application/javascript'')
                 \<in> set (header_fields (sent_head (handle e raw hb)))) = endswith t ''.js''"
proof -
  from head_of_target [OF assms] obtain pre t where
    "request_target raw = Some t" "list_all lib_line pre"
    "sent_head (handle e raw hb) = pre @ cors_block (single_slash t)" by blast
  then show ?thesis
    by (simp add: forced_in_block endswith_single_slash)
qed

text \<open>
  C2 (as amended).  When the target ends in \<open>.js\<close> and the response has status 200, the
  forced field is in the head and is the last \<open>Content-Type\<close> field of it: it is
  appended, and what the library put there before stays.
\<close>

theorem forced_type_is_last:
  assumes "request_target raw = Some t" "endswith t ''.js''"
    and "status_code (sent_head (handle e raw hb)) = Some 200"
  shows "(''Content-Type'', ''application/javascript'') \<in> set (header_fields (sent_head (handle e raw hb)))
       \<and> field_values ''Content-Type'' (sent_head (handle e raw hb)) \<noteq> []
       \<and> last (field_values ''Content-Type'' (sent_head (handle e raw hb))) = ''application/javascript''"
proof -
  from assms(3) have "sent_head (handle e raw hb) \<noteq> []" by (auto simp: status_code_def)
  from head_of_target [OF this] assms(1) obtain pre where
    pre: "list_all lib_line pre" "sent_head (handle e raw hb) = pre @ cors_block (single_slash t)"
    by auto
  from assms(2) have j: "endswith (single_slash t) ''.js''" by (simp add: endswith_single_slash)
  from pre j show ?thesis
    by (simp add: forced_in_block field_values_append cors_block_values)
qed

lemma demo_request_target:
  "request_target (''GET /app.js HTTP/1.1'' @ crlf) = Some ''/app.js''"
  "request_target (''GET /app.js?v=1 HTTP/1.1'' @ crlf) = Some ''/app.js?v=1''"
  "request_target (''GET /app.js'' @ crlf) = Some ''/app.js''"
  "request_target (''GET /notes.txt?v=.js HTTP/1.1'' @ crlf) = Some ''/notes.txt?v=.js''"
  by (simp_all only: request_target_def demo_split list.case)

lemma demo_get_app_js:
  "sends (handle demo_env (''GET /app.js HTTP/1.1'' @ crlf) (Headers []))
     (lib_head demo_env 200 ''OK''
      @ [HeaderLine ''Content-type'' ''application/javascript'',
         HeaderLine ''Content-Length'' (str_nat (length ''let x = 1;'')),
         HeaderLine ''Last-Modified'' (http_date demo_env 1000)]
      @ cors_block ''/app.js'')
     ''let x = 1;''"
  using handle_GET_200 [OF demo_accepted(3) [of "[]"], of "''/app.js''"
      "\<lparr>contents = ''let x = 1;'', mtime = 1000\<rparr>"]
  by (simp add: demo_translate demo_files demo_types no_conditions)

lemma demo_get_app_js_query:
  "sends (handle demo_env (''GET /app.js?v=1 HTTP/1.1'' @ crlf) (Headers []))
     (lib_head demo_env 200 ''OK''
      @ [HeaderLine ''Content-type'' ''application/javascript'',
         HeaderLine ''Content-Length'' (str_nat (length ''let x = 1;'')),
         HeaderLine ''Last-Modified'' (http_date demo_env 1000)]
      @ cors_block ''/app.js?v=1'')
     ''let x = 1;''"
  using handle_GET_200 [OF demo_accepted(4) [of "[]"], of "''/app.js?v=1''"
      "\<lparr>contents = ''let x = 1;'', mtime = 1000\<rparr>"]
  by (simp add: demo_translate demo_files demo_types no_conditions)

lemma demo_get_notes:
  "sends (handle demo_env (''GET /notes.txt?v=.js HTTP/1.1'' @ crlf) (Headers []))
     (lib_head demo_env 200 ''OK''
      @ [HeaderLine ''Content-type'' ''text/plain'',
         HeaderLine ''Content-Length'' (str_nat (length ''hello'')),
         HeaderLine ''Last-Modified'' (http_date demo_env 1000)]
      @ cors_block ''/notes.txt?v=.js'')
     ''hello''"
  using handle_GET_200 [OF demo_accepted(2) [of "[]"], of "''/notes.txt?v=.js''"
      "\<lparr>contents = ''hello'', mtime = 1000\<rparr>"]
  by (simp add: demo_translate demo_files demo_types no_conditions)

lemma demo_get_app_js_09:
  "sends (handle demo_env (''GET /app.js'' @ crlf) (Headers [])) [] ''let x = 1;''"
  using handle_GET_200 [OF demo_accepted_09(1) [of "[]"], of "''/app.js''"
      "\<lparr>contents = ''let x = 1;'', mtime = 1000\<rparr>"]
  by (simp add: demo_translate demo_files no_conditions)

lemma file_head_types:
  "field_values ''Content-Type''
     (lib_head e 200 m
      @ HeaderLine ''Content-type'' ct # HeaderLine ''Content-Length'' n # HeaderLine ''Last-Modified'' d
        # cors_block t)
   = ct # (if endswith t ''.js'' then [''application/javascript''] else [])"
  by (simp add: field_values_append lib_head_values field_values_Cons lower_keys cors_block_values)

theorem forced_type_iff_raw_target_ends_js_witness:
  "sent_head (handle demo_env (''GET /app.js?v=1 HTTP/1.1'' @ crlf) (Headers [])) \<noteq> []
   \<and> request_target (''GET /app.js?v=1 HTTP/1.1'' @ crlf) = Some ''/app.js?v=1''
   \<and> \<not> endswith ''/app.js?v=1'' ''.js''
   \<and> (''Content-Type'', ''application/javascript'')
       \<notin> set (header_fields (sent_head (handle demo_env (''GET /app.js?v=1 HTTP/1.1'' @ crlf) (Headers []))))"
proof -
  have h: "sent_head (handle demo_env (''GET /app.js?v=1 HTTP/1.1'' @ crlf) (Headers [])) \<noteq> []"
    using sends_sent [OF demo_get_app_js_query] by (simp add: lib_head_def)
  from forced_type_iff_raw_target_ends_js [OF h] h demo_request_target(2) demo_ends(4)
  show ?thesis by auto
qed

text \<open>
  C9 as stated fails in its last part: the raw target \<open>/app.js\<close> ends in \<open>.js\<close>, but
  the request has no version, and its reply is the bytes of the file without any header.
\<close>

theorem forced_type_missing_on_http09:
  "request_target (''GET /app.js'' @ crlf) = Some ''/app.js'' \<and> endswith ''/app.js'' ''.js''
   \<and> sent_body (handle demo_env (''GET /app.js'' @ crlf) (Headers [])) = ''let x = 1;''
   \<and> (''Content-Type'', ''application/javascript'')
       \<notin> set (header_fields (sent_head (handle demo_env (''GET /app.js'' @ crlf) (Headers []))))"
  using sends_sent [OF demo_get_app_js_09] demo_request_target(3) demo_ends(3)
  by simp

theorem forced_type_is_last_witness:
  "status_code (sent_head (handle demo_env (''GET /app.js HTTP/1.1'' @ crlf) (Headers []))) = Some 200
   \<and> (''Content-Type'', ''application/javascript'')
       \<in> set (header_fields (sent_head (handle demo_env (''GET /app.js HTTP/1.1'' @ crlf) (Headers []))))
   \<and> last (field_values ''Content-Type''
         (sent_head (handle demo_env (''GET /app.js HTTP/1.1'' @ crlf) (Headers []))))
       = ''application/javascript''"
proof -
  have s: "status_code (sent_head (handle demo_env (''GET /app.js HTTP/1.1'' @ crlf) (Headers []))) = Some 200"
    using sends_sent [OF demo_get_app_js] by (simp add: status_lib_head)
  from forced_type_is_last [OF demo_request_target(1) demo_ends(3) s] s
  show ?thesis by blast
qed

text \<open>
  C2 as stated fails: the target \<open>/notes.txt?v=.js\<close> ends in \<open>.js\<close>, the response
  has status 200, and its first \<open>Content-Type\<close> field is the resolver's
  \<open>text/plain\<close>: the forced field follows it, it does not replace it.
\<close>

theorem resolver_type_not_overridden:
  "request_target (''GET /notes.txt?v=.js HTTP/1.1'' @ crlf) = Some ''/notes.txt?v=.js''
   \<and> endswith ''/notes.txt?v=.js'' ''.js''
   \<and> status_code (sent_head (handle demo_env (''GET /notes.txt?v=.js HTTP/1.1'' @ crlf) (Headers []))) = Some 200
   \<and> field_values ''Content-Type''
         (sent_head (handle demo_env (''GET /notes.txt?v=.js HTTP/1.1'' @ crlf) (Headers [])))
       = [''text/plain'', ''application/javascript'']"
  using sends_sent [OF demo_get_notes] demo_request_target(4) demo_ends(2)
  by (simp add: status_lib_head file_head_types)

text \<open>
  What a \<open>GET\<close> or a \<open>HEAD\<close> for a file that can be opened sends when its status is
  200: the three lines of \<open>send_response\<close>, the three fields of \<open>send_head\<close>, and
  the injected block.  (The other heads of such a request are the 404 of a path with a
  trailing slash, the 304 of a conditional request, and the empty head of HTTP/0.9.)
\<close>

lemma file_head_200:
  assumes "accepted e raw hb s1" "command s1 = Some ''GET'' \<or> command s1 = Some ''HEAD''"
    and "path s1 = Some t" "\<not> isdir e (translate_path e t)"
    and "open_rb e (translate_path e t) = Opened f"
    and "status_code (sent_head (handle e raw hb)) = Some 200"
  shows "sent_head (handle e raw hb)
           = lib_head e 200 ''OK''
             @ [HeaderLine ''Content-type'' (guess_type e (translate_path e t)),
                HeaderLine ''Content-Length'' (str_nat (length (contents f))),
                HeaderLine ''Last-Modified'' (http_date e (mtime f))]
             @ cors_block t"
proof -
  let ?p = "translate_path e t"
  note st = assms(3) accepted_state(2,1) [OF assms(1)]
  have h: "handle e raw hb = (if command s1 = Some ''GET'' then do_GET e s1 else do_HEAD e s1)"
    using assms(2) handle_accepted [OF assms(1)]
    by (auto simp: do_methods_def call_method_def)
  have sh: "send_head e s1 = send_head_file e s1 ?p"
    using assms(3,4) by (simp add: send_head_def Let_def)
  have sent: "sent_head (handle e raw hb) = wfile_head s'"
    if "send_head_file e s1 ?p = Inr (x, s')" for x s'
    using that h sh
    by (auto simp: do_GET_def do_HEAD_def sent_head_def final_state_def split: option.splits)
  show ?thesis
  proof (cases "endswith ?p ''/''")
    case True
    then have "endswith ?p ''/'' \<or> open_rb e ?p = RaisedOSError" by simp
    from send_head_file_404 [OF st this] obtain s' where
      "send_head_file e s1 ?p = Inr (None, s')"
      "status_code (wfile_head s') \<noteq> Some 200"
      by (auto simp: status_lib_head status_code_Nil)
    with sent assms(6) show ?thesis by auto
  next
    case False
    show ?thesis
    proof (cases "not_modified e s1 f")
      case True
      from send_head_file_304 [OF st False assms(5) True] obtain s' where
        "send_head_file e s1 ?p = Inr (None, s')"
        "status_code (wfile_head s') \<noteq> Some 200"
        by (auto simp: status_lib_head status_code_Nil)
      with sent assms(6) show ?thesis by auto
    next
      case nm: False
      from send_head_file_200 [OF st False assms(5) nm] obtain s' where
        s': "send_head_file e s1 ?p = Inr (Some (contents f), s')"
        "wfile_head s' = (if request_version s1 = ''HTTP/0.9'' then []
                            else lib_head e 200 ''OK''
                                 @ [HeaderLine ''Content-type'' (guess_type e ?p),
                                    HeaderLine ''Content-Length'' (str_nat (length (contents f))),
                                    HeaderLine ''Last-Modified'' (http_date e (mtime f))]
                                 @ cors_block t)"
        by blast
      from sent [OF s'(1)] s'(2) assms(6) show ?thesis
        by (auto simp: status_code_Nil split: if_splits)
    qed
  qed
qed

text \<open>
  C10.  A 200 response to a \<open>GET\<close> or \<open>HEAD\<close> for an existing file, with a target that
  ends in \<open>.js\<close>, has two \<open>Content-Type\<close> fields in its head: first the one the
  library inferred from the file name, then the injected \<open>application/javascript\<close>.
\<close>

theorem two_content_type_lines:
  assumes "accepted e raw hb s1" "command s1 = Some ''GET'' \<or> command s1 = Some ''HEAD''"
    and "path s1 = Some t" "endswith t ''.js''"
    and "\<not> isdir e (translate_path e t)" "open_rb e (translate_path e t) = Opened f"
    and "status_code (sent_head (handle e raw hb)) = Some 200"
  shows "field_values ''Content-Type'' (sent_head (handle e raw hb))
           = [guess_type e (translate_path e t), ''application/javascript'']"
  using file_head_200 [OF assms(1-3) assms(5-7)] assms(4)
  by (simp add: file_head_types)

theorem two_content_type_lines_witness:
  "status_code (sent_head (handle demo_env (''GET /app.js HTTP/1.1'' @ crlf) (Headers []))) = Some 200
   \<and> field_values ''Content-Type''
         (sent_head (handle demo_env (''GET /app.js HTTP/1.1'' @ crlf) (Headers [])))
       = [''application/javascript'', ''application/javascript'']"
proof -
  let ?s1 = "\<lparr>command = Some ''GET'', path = Some ''/app.js'', request_version = ''HTTP/1.1'',
      headers = [], headers_buffer = [], wfile_head = [], wfile_body = []\<rparr>"
  let ?f = "\<lparr>contents = ''let x = 1;'', mtime = 1000\<rparr>"
  have c: "command ?s1 = Some ''GET'' \<or> command ?s1 = Some ''HEAD''" "path ?s1 = Some ''/app.js''"
    "endswith ''/app.js'' ''.js''" by (simp_all add: demo_ends)
  have f: "\<not> isdir demo_env (translate_path demo_env ''/app.js'')"
    "open_rb demo_env (translate_path demo_env ''/app.js'') = Opened ?f"
    by (simp_all add: demo_translate demo_files)
  have s: "status_code (sent_head (handle demo_env (''GET /app.js HTTP/1.1'' @ crlf) (Headers []))) = Some 200"
    using sends_sent [OF demo_get_app_js] by (simp add: status_lib_head)
  from two_content_type_lines [OF demo_accepted(3) [of "[]"] c f s] s
  show ?thesis by (simp add: demo_translate demo_types)
qed








end
